theory Spec2Isabelle
  imports Complex_Main "HOL-Library.Char_ord"
begin

section \<open>Go strings\<close>

text \<open>
  A Go string is a sequence of bytes, here a \<^typ>\<open>string\<close>. The functions of package
  \<^verbatim>\<open>strings\<close> that the validator calls are modelled below. \<^verbatim>\<open>TrimSpace\<close> is modelled on
  every byte sequence, since it is applied to the raw request text. The case functions and
  \<^verbatim>\<open>Fields\<close> are modelled on ASCII text: the validator applies them only to text that
  \<^verbatim>\<open>cleanAddress\<close> has returned, from which every byte outside ASCII is gone.
\<close>

definition isDigit :: "char \<Rightarrow> bool" where
  "isDigit c = (CHR ''0'' \<le> c \<and> c \<le> CHR ''9'')"

definition isUpper :: "char \<Rightarrow> bool" where
  "isUpper c = (CHR ''A'' \<le> c \<and> c \<le> CHR ''Z'')"

definition isLower :: "char \<Rightarrow> bool" where
  "isLower c = (CHR ''a'' \<le> c \<and> c \<le> CHR ''z'')"

definition isLetter :: "char \<Rightarrow> bool" where
  "isLetter c = (isUpper c \<or> isLower c)"

text \<open>The class \<^verbatim>\<open>\w\<close> of Go's regexp: ASCII letters, digits and the underscore.\<close>

definition isWordChar :: "char \<Rightarrow> bool" where
  "isWordChar c = (isLetter c \<or> isDigit c \<or> c = CHR ''_'')"

text \<open>The class \<^verbatim>\<open>\s\<close> of Go's regexp: tab, line feed, form feed, carriage return, space.\<close>

definition isReSpace :: "char \<Rightarrow> bool" where
  "isReSpace c = (c \<in> set [CHR 0x09, CHR 0x0A, CHR 0x0C, CHR 0x0D, CHR '' ''])"

text \<open>
  \<^verbatim>\<open>unicode.IsSpace\<close>, as the UTF-8 encodings of the code points with the White_Space
  property: U+0009..U+000D, U+0020, U+0085, U+00A0, U+1680, U+2000..U+200A, U+2028, U+2029,
  U+202F, U+205F, U+3000.
\<close>

definition unicodeSpaces :: "string list" where
  "unicodeSpaces =
    [[CHR 0x09], [CHR 0x0A], [CHR 0x0B], [CHR 0x0C], [CHR 0x0D], [CHR 0x20],
     [CHR 0xC2, CHR 0x85], [CHR 0xC2, CHR 0xA0], [CHR 0xE1, CHR 0x9A, CHR 0x80],
     [CHR 0xE2, CHR 0x80, CHR 0x80], [CHR 0xE2, CHR 0x80, CHR 0x81],
     [CHR 0xE2, CHR 0x80, CHR 0x82], [CHR 0xE2, CHR 0x80, CHR 0x83],
     [CHR 0xE2, CHR 0x80, CHR 0x84], [CHR 0xE2, CHR 0x80, CHR 0x85],
     [CHR 0xE2, CHR 0x80, CHR 0x86], [CHR 0xE2, CHR 0x80, CHR 0x87],
     [CHR 0xE2, CHR 0x80, CHR 0x88], [CHR 0xE2, CHR 0x80, CHR 0x89],
     [CHR 0xE2, CHR 0x80, CHR 0x8A], [CHR 0xE2, CHR 0x80, CHR 0xA8],
     [CHR 0xE2, CHR 0x80, CHR 0xA9], [CHR 0xE2, CHR 0x80, CHR 0xAF],
     [CHR 0xE2, CHR 0x81, CHR 0x9F], [CHR 0xE3, CHR 0x80, CHR 0x80]]"

text \<open>The text after a leading white-space rune, if the text starts with one.\<close>

fun afterSpace :: "string list \<Rightarrow> string \<Rightarrow> string option" where
  "afterSpace [] s = None"
| "afterSpace (e # es) s =
     (if take (length e) s = e \<and> e \<noteq> [] then Some (drop (length e) s) else afterSpace es s)"

lemma afterSpace_shorter: "afterSpace es s = Some t \<Longrightarrow> length t < length s"
proof (induction es)
  case Nil
  then show ?case by simp
next
  case (Cons e es)
  show ?case
  proof (cases "take (length e) s = e \<and> e \<noteq> []")
    case True
    then have "t = drop (length e) s" using Cons.prems by simp
    moreover have "s \<noteq> []" using True by auto
    moreover have "0 < length e" using True by simp
    ultimately show ?thesis by simp
  next
    case False
    then show ?thesis using Cons by auto
  qed
qed

function trimLeftRunes :: "string list \<Rightarrow> string \<Rightarrow> string" where
  "trimLeftRunes es s = (case afterSpace es s of None \<Rightarrow> s | Some t \<Rightarrow> trimLeftRunes es t)"
  by pat_completeness auto
termination
  by (relation "measure (\<lambda>(es, s). length s)") (auto simp: afterSpace_shorter)

declare trimLeftRunes.simps [simp del]

text \<open>
  \<^verbatim>\<open>strings.TrimSpace\<close>: white-space runes are removed from the left, then from the right
  (there the encodings are read backwards).
\<close>

definition TrimSpace :: "string \<Rightarrow> string" where
  "TrimSpace s = rev (trimLeftRunes (map rev unicodeSpaces) (rev (trimLeftRunes unicodeSpaces s)))"

text \<open>The case of an ASCII letter is changed by the distance 32 of \<open>a\<close> from \<open>A\<close>.\<close>

definition toUpperByte :: "char \<Rightarrow> char" where
  "toUpperByte c = (if isLower c then char_of (of_char c - 32 :: nat) else c)"

definition toLowerByte :: "char \<Rightarrow> char" where
  "toLowerByte c = (if isUpper c then char_of (of_char c + 32 :: nat) else c)"

definition ToUpper :: "string \<Rightarrow> string" where
  "ToUpper s = map toUpperByte s"

definition ToLower :: "string \<Rightarrow> string" where
  "ToLower s = map toLowerByte s"

text \<open>Changing the case of a letter sets or clears one bit; evaluation uses this form.\<close>

lemma letter_bits:
  "isUpper (Char b0 b1 b2 b3 b4 b5 b6 b7) \<or> isLower (Char b0 b1 b2 b3 b4 b5 b6 b7) \<Longrightarrow>
   b6 \<and> \<not> b7"
  unfolding isUpper_def isLower_def less_eq_char_def
  by (cases b0; cases b1; cases b2; cases b3; cases b4; cases b5; cases b6; cases b7; simp)

lemma isUpper_bit: "isUpper (Char b0 b1 b2 b3 b4 b5 b6 b7) \<Longrightarrow> \<not> b5"
  unfolding isUpper_def less_eq_char_def
  by (cases b0; cases b1; cases b2; cases b3; cases b4; cases b5; cases b6; cases b7; simp)

lemma isLower_bit: "isLower (Char b0 b1 b2 b3 b4 b5 b6 b7) \<Longrightarrow> b5"
  unfolding isLower_def less_eq_char_def
  by (cases b0; cases b1; cases b2; cases b3; cases b4; cases b5; cases b6; cases b7; simp)

lemma toLowerByte_code [code]:
  "toLowerByte c =
     (if isUpper c
      then Char (digit0 c) (digit1 c) (digit2 c) (digit3 c) (digit4 c) True (digit6 c) (digit7 c)
      else c)"
proof (cases "isUpper c")
  case False
  then show ?thesis by (simp add: toLowerByte_def)
next
  case True
  obtain b0 b1 b2 b3 b4 b5 b6 b7 where c: "c = Char b0 b1 b2 b3 b4 b5 b6 b7"
    by (cases c)
  have b: "\<not> b5" "b6" "\<not> b7"
    using True letter_bits isUpper_bit unfolding c by blast+
  have "of_char c + (32::nat) = of_char (Char b0 b1 b2 b3 b4 True b6 b7)"
    by (simp add: c b)
  then have "char_of (of_char c + (32::nat)) = Char b0 b1 b2 b3 b4 True b6 b7"
    by (simp del: of_char_Char)
  then show ?thesis using True by (simp add: toLowerByte_def c)
qed

lemma toUpperByte_code [code]:
  "toUpperByte c =
     (if isLower c
      then Char (digit0 c) (digit1 c) (digit2 c) (digit3 c) (digit4 c) False (digit6 c) (digit7 c)
      else c)"
proof (cases "isLower c")
  case False
  then show ?thesis by (simp add: toUpperByte_def)
next
  case True
  obtain b0 b1 b2 b3 b4 b5 b6 b7 where c: "c = Char b0 b1 b2 b3 b4 b5 b6 b7"
    by (cases c)
  have b: "b5" "b6" "\<not> b7"
    using True letter_bits isLower_bit unfolding c by blast+
  have "of_char c - (32::nat) = of_char (Char b0 b1 b2 b3 b4 False b6 b7)"
    by (simp add: c b)
  then have "char_of (of_char c - (32::nat)) = Char b0 b1 b2 b3 b4 False b6 b7"
    by (simp del: of_char_Char)
  then show ?thesis using True by (simp add: toUpperByte_def c)
qed

text \<open>
  \<^verbatim>\<open>strings.EqualFold\<close> on ASCII text, as its loop runs: equal bytes pass, and so do two
  bytes that are the two cases of one letter; the first other pair ends it.
\<close>

fun EqualFold :: "string \<Rightarrow> string \<Rightarrow> bool" where
  "EqualFold [] [] = True"
| "EqualFold (c # cs) (d # ds) =
     (if c = d then EqualFold cs ds
      else if toLowerByte c = toLowerByte d then EqualFold cs ds
      else False)"
| "EqualFold [] (d # ds) = False"
| "EqualFold (c # cs) [] = False"

text \<open>The ASCII white space of \<^verbatim>\<open>strings.Fields\<close>: the five of \<^verbatim>\<open>\s\<close> and the vertical tab.\<close>

definition isAsciiSpace :: "char \<Rightarrow> bool" where
  "isAsciiSpace c = (c \<in> set [CHR 0x09, CHR 0x0A, CHR 0x0B, CHR 0x0C, CHR 0x0D, CHR '' ''])"

text \<open>\<^verbatim>\<open>strings.Fields\<close>: the maximal runs of characters that are not white space.\<close>

function Fields :: "string \<Rightarrow> string list" where
  "Fields [] = []"
| "Fields (c # cs) =
     (if isAsciiSpace c then Fields cs
      else (c # takeWhile (\<lambda>x. \<not> isAsciiSpace x) cs) # Fields (dropWhile (\<lambda>x. \<not> isAsciiSpace x) cs))"
  by pat_completeness auto
termination
  by (relation "measure length") (auto simp: le_imp_less_Suc length_dropWhile_le)

text \<open>\<^verbatim>\<open>strings.Join\<close>.\<close>

fun Join :: "string list \<Rightarrow> string \<Rightarrow> string" where
  "Join [] sep = []"
| "Join [x] sep = x"
| "Join (x # y # ys) sep = x @ sep @ Join (y # ys) sep"

section \<open>The data model (models.go)\<close>

record ValidatedAddress =
  StreetNumber :: string
  StreetName :: string
  Unit :: string
  City :: string
  State :: string
  ZipCode :: string
  ZipPlus4 :: string
  County :: string
  FullAddress :: string

text \<open>
  The response. \<^verbatim>\<open>ValidatedAddress\<close> is a pointer, \<open>None\<close> when nil. The field
  \<^verbatim>\<open>ProcessedAt\<close> holds the wall-clock time of the call and is left out.
\<close>

record AddressResponse =
  Status :: string
  OriginalAddress :: string
  ValidatedAddress :: "ValidatedAddress option"
  Message :: string

definition StatusValid :: string where
  "StatusValid = ''valid''"

definition StatusCorrected :: string where
  "StatusCorrected = ''corrected''"

definition StatusUnverifiable :: string where
  "StatusUnverifiable = ''unverifiable''"

text \<open>The zero value of the struct: every field the empty string.\<close>

definition emptyAddress :: ValidatedAddress where
  "emptyAddress = \<lparr>StreetNumber = [], StreetName = [], Unit = [], City = [], State = [],
     ZipCode = [], ZipPlus4 = [], County = [], FullAddress = []\<rparr>"

section \<open>Regular expressions\<close>

text \<open>
  The fragment of the regular expressions of Go's \<^verbatim>\<open>regexp\<close> and of JavaScript that the
  programs use: character classes, repetition of a class (greedy or lazy), sequence,
  alternative, option, numbered capture groups and the assertions \<^verbatim>\<open>^\<close>, \<^verbatim>\<open>$\<close> (no
  multi-line flag) and \<^verbatim>\<open>\b\<close>. Both engines return, among the matches that start leftmost,
  the one a backtracking search finds first; \<open>rxm\<close> is that search. It runs the expression on
  the rest of the text (\<open>p\<close> is the character before it) and hands the position and the
  captures to the continuation \<open>k\<close>; a failing continuation makes it try the next choice.
\<close>

datatype 'a rx =
    Eps
  | One "'a \<Rightarrow> bool"
  | Many "'a \<Rightarrow> bool" nat bool
  | Cat "'a rx" "'a rx"
  | Alt "'a rx" "'a rx"
  | Opt "'a rx"
  | Grp nat "'a rx"
  | Bgn
  | End
  | Wb "'a \<Rightarrow> bool"

type_synonym 'a caps = "(nat \<times> 'a list) list"

text \<open>
  \<open>Many P n greedy\<close> is \<open>P{n,}\<close>: at least \<open>n\<close> characters of the class \<open>P\<close>, as many as
  possible first when greedy, as few as possible first when lazy.
\<close>

fun many :: "('a \<Rightarrow> bool) \<Rightarrow> nat \<Rightarrow> bool \<Rightarrow> 'a option \<Rightarrow> 'a list \<Rightarrow> 'a caps \<Rightarrow>
    ('a option \<Rightarrow> 'a list \<Rightarrow> 'a caps \<Rightarrow> 'r option) \<Rightarrow> 'r option" where
  "many P n greedy p [] c k = (if n = 0 then k p [] c else None)"
| "many P n greedy p (x # xs) c k =
     (if greedy then
        (case (if P x then many P (n - 1) greedy (Some x) xs c k else None) of
           Some r \<Rightarrow> Some r
         | None \<Rightarrow> if n = 0 then k p (x # xs) c else None)
      else
        (case (if n = 0 then k p (x # xs) c else None) of
           Some r \<Rightarrow> Some r
         | None \<Rightarrow> if P x then many P (n - 1) greedy (Some x) xs c k else None))"

fun rxm :: "'a rx \<Rightarrow> 'a option \<Rightarrow> 'a list \<Rightarrow> 'a caps \<Rightarrow>
    ('a option \<Rightarrow> 'a list \<Rightarrow> 'a caps \<Rightarrow> 'r option) \<Rightarrow> 'r option" where
  "rxm Eps p s c k = k p s c"
| "rxm (One P) p s c k =
     (case s of [] \<Rightarrow> None | x # xs \<Rightarrow> if P x then k (Some x) xs c else None)"
| "rxm (Many P n greedy) p s c k = many P n greedy p s c k"
| "rxm (Cat a b) p s c k = rxm a p s c (\<lambda>p' s' c'. rxm b p' s' c' k)"
| "rxm (Alt a b) p s c k =
     (case rxm a p s c k of Some r \<Rightarrow> Some r | None \<Rightarrow> rxm b p s c k)"
| "rxm (Opt a) p s c k =
     (case rxm a p s c k of Some r \<Rightarrow> Some r | None \<Rightarrow> k p s c)"
| "rxm (Grp n a) p s c k =
     rxm a p s c (\<lambda>p' s' c'. k p' s' ((n, take (length s - length s') s) # c'))"
| "rxm Bgn p s c k = (if p = None then k p s c else None)"
| "rxm End p s c k = (if s = [] then k p s c else None)"
| "rxm (Wb W) p s c k =
     (if (case p of None \<Rightarrow> False | Some x \<Rightarrow> W x) \<noteq> (case s of [] \<Rightarrow> False | x # xs \<Rightarrow> W x)
      then k p s c else None)"

text \<open>The leftmost match: the search is tried at every position, from the left.\<close>

fun searchFrom :: "'a rx \<Rightarrow> 'a option \<Rightarrow> 'a list \<Rightarrow> 'a caps option" where
  "searchFrom r p [] = rxm (Grp 0 r) p [] [] (\<lambda>p' s' c'. Some c')"
| "searchFrom r p (x # xs) =
     (case rxm (Grp 0 r) p (x # xs) [] (\<lambda>p' s' c'. Some c') of
        Some c \<Rightarrow> Some c
      | None \<Rightarrow> searchFrom r (Some x) xs)"

fun numSubexp :: "'a rx \<Rightarrow> nat" where
  "numSubexp (Cat a b) = max (numSubexp a) (numSubexp b)"
| "numSubexp (Alt a b) = max (numSubexp a) (numSubexp b)"
| "numSubexp (Opt a) = numSubexp a"
| "numSubexp (Grp n a) = max n (numSubexp a)"
| "numSubexp r = 0"

text \<open>The text of group \<open>i\<close>: its last capture, the empty text when it took no part.\<close>

definition group :: "'a caps \<Rightarrow> nat \<Rightarrow> 'a list" where
  "group c i = (case map_of c i of None \<Rightarrow> [] | Some t \<Rightarrow> t)"

text \<open>
  \<^verbatim>\<open>FindStringSubmatch\<close>: \<open>None\<close> is the nil slice of no match; a match gives the text of
  the whole match and of every group, in order.
\<close>

definition FindStringSubmatch :: "'a rx \<Rightarrow> 'a list \<Rightarrow> 'a list list option" where
  "FindStringSubmatch r s =
     (case searchFrom r None s of
        None \<Rightarrow> None
      | Some c \<Rightarrow> Some (map (group c) [0 ..< Suc (numSubexp r)]))"

definition MatchString :: "'a rx \<Rightarrow> 'a list \<Rightarrow> bool" where
  "MatchString r s = (searchFrom r None s \<noteq> None)"

fun seq :: "'a rx list \<Rightarrow> 'a rx" where
  "seq [] = Eps"
| "seq [r] = r"
| "seq (r # rs) = Cat r (seq rs)"

fun alts :: "'a rx list \<Rightarrow> 'a rx" where
  "alts [] = Eps"
| "alts [r] = r"
| "alts (r # rs) = Alt r (alts rs)"

text \<open>\<open>r{n}\<close>\<close>

fun times :: "nat \<Rightarrow> 'a rx \<Rightarrow> 'a rx" where
  "times 0 r = Eps"
| "times (Suc 0) r = r"
| "times (Suc n) r = Cat r (times n r)"

text \<open>A literal under the flag \<^verbatim>\<open>(?i)\<close>, on ASCII text.\<close>

definition foldLit :: "string \<Rightarrow> char rx" where
  "foldLit w = seq (map (\<lambda>a. One (\<lambda>x. toLowerByte x = toLowerByte a)) w)"

section \<open>The Cleaner (cleanAddress)\<close>

text \<open>\<^verbatim>\<open>regexp.MustCompile(`\s+`).ReplaceAllString(address, " ")\<close>\<close>

function replaceSpaceRuns :: "string \<Rightarrow> string" where
  "replaceSpaceRuns [] = []"
| "replaceSpaceRuns (c # cs) =
     (if isReSpace c then CHR '' '' # replaceSpaceRuns (dropWhile isReSpace cs)
      else c # replaceSpaceRuns cs)"
  by pat_completeness auto
termination
  by (relation "measure length") (auto simp: le_imp_less_Suc length_dropWhile_le)

text \<open>
  The class \<^verbatim>\<open>[^\w\s\-\.#/,]\<close> is the complement of \<open>isKept\<close>; a byte outside ASCII
  is in it (as part of a rune, or as an invalid byte), so replacing every match by the empty
  string keeps exactly the bytes of \<open>isKept\<close>.
\<close>

definition isKept :: "char \<Rightarrow> bool" where
  "isKept c = (isWordChar c \<or> isReSpace c \<or> c \<in> set ''-.#/,'')"

definition cleanAddress :: "string \<Rightarrow> string" where
  "cleanAddress address =
     (if length address > 500 then []
      else let a1 = TrimSpace address in
        if a1 = [] then []
        else let a2 = replaceSpaceRuns a1;
                 a3 = filter isKept a2 in
          if length (TrimSpace a3) < 5 then [] else a3)"

section \<open>Run-time panics\<close>

text \<open>
  Reading a slice or a string outside its bounds stops a Go program with a run-time panic.
  A function that reads by index returns \<open>Inl\<close> of the panic, or \<open>Inr\<close> of its result.
\<close>

datatype panic = IndexOutOfRange | SliceBoundsOutOfRange

definition index :: "'a list \<Rightarrow> nat \<Rightarrow> panic + 'a" where
  "index xs i = (if i < length xs then Inr (xs ! i) else Inl IndexOutOfRange)"

text \<open>\<open>xs[n:]\<close> and \<open>xs[:n]\<close>\<close>

definition sliceFrom :: "'a list \<Rightarrow> nat \<Rightarrow> panic + 'a list" where
  "sliceFrom xs n = (if n \<le> length xs then Inr (drop n xs) else Inl SliceBoundsOutOfRange)"

definition sliceTo :: "'a list \<Rightarrow> nat \<Rightarrow> panic + 'a list" where
  "sliceTo xs n = (if n \<le> length xs then Inr (take n xs) else Inl SliceBoundsOutOfRange)"

definition andThen :: "'e + 'a \<Rightarrow> ('a \<Rightarrow> 'e + 'b) \<Rightarrow> 'e + 'b" where
  "andThen m f = (case m of Inl e \<Rightarrow> Inl e | Inr x \<Rightarrow> f x)"

fun forEach :: "('a \<Rightarrow> panic + 'b) \<Rightarrow> 'a list \<Rightarrow> panic + 'b list" where
  "forEach f [] = Inr []"
| "forEach f (x # xs) = andThen (f x) (\<lambda>y. andThen (forEach f xs) (\<lambda>ys. Inr (y # ys)))"

section \<open>The lookup tables\<close>

text \<open>
  The three maps of the validator, as association lists in the order of the source. A lookup
  is \<open>map_of\<close>. A \<^verbatim>\<open>range\<close> loop visits the entries of a map in an order that Go does not
  fix; the loops below take the entries in the order written here.
\<close>

definition getStateAbbreviations :: "(string \<times> string) list" where
  "getStateAbbreviations =
    [(''AL'', ''Alabama''), (''AK'', ''Alaska''), (''AZ'', ''Arizona''), (''AR'', ''Arkansas''),
     (''CA'', ''California''), (''CO'', ''Colorado''), (''CT'', ''Connecticut''),
     (''DE'', ''Delaware''), (''FL'', ''Florida''), (''GA'', ''Georgia''), (''HI'', ''Hawaii''),
     (''ID'', ''Idaho''), (''IL'', ''Illinois''), (''IN'', ''Indiana''), (''IA'', ''Iowa''),
     (''KS'', ''Kansas''), (''KY'', ''Kentucky''), (''LA'', ''Louisiana''), (''ME'', ''Maine''),
     (''MD'', ''Maryland''), (''MA'', ''Massachusetts''), (''MI'', ''Michigan''),
     (''MN'', ''Minnesota''), (''MS'', ''Mississippi''), (''MO'', ''Missouri''),
     (''MT'', ''Montana''), (''NE'', ''Nebraska''), (''NV'', ''Nevada''),
     (''NH'', ''New Hampshire''), (''NJ'', ''New Jersey''), (''NM'', ''New Mexico''),
     (''NY'', ''New York''), (''NC'', ''North Carolina''), (''ND'', ''North Dakota''),
     (''OH'', ''Ohio''), (''OK'', ''Oklahoma''), (''OR'', ''Oregon''), (''PA'', ''Pennsylvania''),
     (''RI'', ''Rhode Island''), (''SC'', ''South Carolina''), (''SD'', ''South Dakota''),
     (''TN'', ''Tennessee''), (''TX'', ''Texas''), (''UT'', ''Utah''), (''VT'', ''Vermont''),
     (''VA'', ''Virginia''), (''WA'', ''Washington''), (''WV'', ''West Virginia''),
     (''WI'', ''Wisconsin''), (''WY'', ''Wyoming''), (''DC'', ''District of Columbia'')]"

definition getCommonMisspellings :: "(string \<times> string) list" where
  "getCommonMisspellings =
    [(''Steet'', ''Street''), (''Streat'', ''Street''), (''Streeet'', ''Street''),
     (''Avenu'', ''Avenue''), (''Aveune'', ''Avenue''), (''Blvd'', ''Boulevard''),
     (''Rd'', ''Road''), (''Dr'', ''Drive''), (''Ct'', ''Court''), (''Ln'', ''Lane''),
     (''Pl'', ''Place''), (''Pkwy'', ''Parkway'')]"

definition getStreetSuffixes :: "(string \<times> string) list" where
  "getStreetSuffixes =
    [(''St'', ''Street''), (''Ave'', ''Avenue''), (''Blvd'', ''Boulevard''), (''Rd'', ''Road''),
     (''Dr'', ''Drive''), (''Ct'', ''Court''), (''Ln'', ''Lane''), (''Pl'', ''Place''),
     (''Pkwy'', ''Parkway''), (''Cir'', ''Circle''), (''Way'', ''Way''), (''Trl'', ''Trail''),
     (''Ter'', ''Terrace'')]"

section \<open>The Parser\<close>

definition isZipCodePattern :: "char rx" where
  "isZipCodePattern =
     seq [Bgn, times 5 (One isDigit),
          Opt (Grp 1 (seq [One (\<lambda>c. c = CHR ''-''), times 4 (One isDigit)])), End]"

definition isZipCode :: "string \<Rightarrow> bool" where
  "isZipCode s = MatchString isZipCodePattern s"

definition isValidZipCode :: "string \<Rightarrow> bool" where
  "isValidZipCode zipCode = isZipCode zipCode"

definition isState :: "string \<Rightarrow> bool" where
  "isState s0 =
     (let s = ToUpper (TrimSpace s0) in
      if map_of getStateAbbreviations s \<noteq> None then True
      else list_ex (\<lambda>(abbrev, fullName). EqualFold s fullName) getStateAbbreviations)"

definition isValidState :: "string \<Rightarrow> bool" where
  "isValidState state = (map_of getStateAbbreviations (ToUpper state) \<noteq> None)"

definition notComma :: "char \<Rightarrow> bool" where
  "notComma c = (c \<noteq> CHR '','')"

definition isComma :: "char \<Rightarrow> bool" where
  "isComma c = (c = CHR '','')"

text \<open>
  The two patterns of \<^verbatim>\<open>parseAddress\<close>, both under \<^verbatim>\<open>(?i)\<close>; on ASCII text
  \<^verbatim>\<open>(?i)[a-z]\<close> is a letter of either case.
  \<^verbatim>\<open>^(\d+)\s+([^,]+?)(?:\s+(apt|apartment|unit|ste|suite|#)\s*([^,]+?))?\s*,?\s*([^,]+?)\s*,?\s*([a-z]{2})\s+(\d{5})(?:-(\d{4}))?$\<close>
\<close>

definition fullPattern :: "char rx" where
  "fullPattern =
     seq [Bgn, Grp 1 (Many isDigit 1 True), Many isReSpace 1 True, Grp 2 (Many notComma 1 False),
          Opt (seq [Many isReSpace 1 True,
                    Grp 3 (alts (map foldLit
                      [''apt'', ''apartment'', ''unit'', ''ste'', ''suite'', ''#''])),
                    Many isReSpace 0 True, Grp 4 (Many notComma 1 False)]),
          Many isReSpace 0 True, Opt (One isComma), Many isReSpace 0 True,
          Grp 5 (Many notComma 1 False),
          Many isReSpace 0 True, Opt (One isComma), Many isReSpace 0 True,
          Grp 6 (times 2 (One isLetter)), Many isReSpace 1 True,
          Grp 7 (times 5 (One isDigit)),
          Opt (seq [One (\<lambda>c. c = CHR ''-''), Grp 8 (times 4 (One isDigit))]), End]"

text \<open>\<^verbatim>\<open>^(\d+)\s+([^,]+?)\s*,?\s*([^,]+?)\s*,?\s*([a-z]{2})\s+(\d{5})(?:-(\d{4}))?$\<close>\<close>

definition simplePattern :: "char rx" where
  "simplePattern =
     seq [Bgn, Grp 1 (Many isDigit 1 True), Many isReSpace 1 True, Grp 2 (Many notComma 1 False),
          Many isReSpace 0 True, Opt (One isComma), Many isReSpace 0 True,
          Grp 3 (Many notComma 1 False),
          Many isReSpace 0 True, Opt (One isComma), Many isReSpace 0 True,
          Grp 4 (times 2 (One isLetter)), Many isReSpace 1 True,
          Grp 5 (times 5 (One isDigit)),
          Opt (seq [One (\<lambda>c. c = CHR ''-''), Grp 6 (times 4 (One isDigit))]), End]"

definition parseFullAddress :: "string list \<Rightarrow> panic + ValidatedAddress option" where
  "parseFullAddress matches =
     andThen (index matches 1) (\<lambda>m1.
     andThen (index matches 2) (\<lambda>m2.
     andThen (index matches 4) (\<lambda>m4.
     andThen (index matches 5) (\<lambda>m5.
     andThen (index matches 6) (\<lambda>m6.
     andThen (index matches 7) (\<lambda>m7.
     andThen (index matches 8) (\<lambda>m8.
       Inr (Some (emptyAddress\<lparr>StreetNumber := m1, StreetName := m2, Unit := m4, City := m5,
         State := ToUpper m6, ZipCode := m7, ZipPlus4 := m8\<rparr>)))))))))"

definition parseSimpleAddress :: "string list \<Rightarrow> panic + ValidatedAddress option" where
  "parseSimpleAddress matches =
     andThen (index matches 1) (\<lambda>m1.
     andThen (index matches 2) (\<lambda>m2.
     andThen (index matches 3) (\<lambda>m3.
     andThen (index matches 4) (\<lambda>m4.
     andThen (index matches 5) (\<lambda>m5.
     andThen (index matches 6) (\<lambda>m6.
       Inr (Some (emptyAddress\<lparr>StreetNumber := m1, StreetName := m2, City := m3,
         State := ToUpper m4, ZipCode := m5, ZipPlus4 := m6\<rparr>))))))))"

text \<open>The first loop of \<^verbatim>\<open>parsePartialAddress\<close>, from index \<open>i\<close> on: the first state token.\<close>

function stateLoop :: "string list \<Rightarrow> nat \<Rightarrow> ValidatedAddress \<Rightarrow> panic + ValidatedAddress" where
  "stateLoop parts i result =
     (if i < length parts then
        andThen (index parts i) (\<lambda>part.
          if isState part then
            andThen (if i > 0
                     then andThen (sliceTo parts i) (\<lambda>cityParts.
                            Inr (result\<lparr>State := ToUpper part, City := Join cityParts '' ''\<rparr>))
                     else Inr (result\<lparr>State := ToUpper part\<rparr>)) (\<lambda>r.
              if int i < int (length parts) - 1
              then andThen (index parts (i + 1)) (\<lambda>next.
                     Inr (if isZipCode next then r\<lparr>ZipCode := next\<rparr> else r))
              else Inr r)
          else stateLoop parts (i + 1) result)
      else Inr result)"
  by pat_completeness auto
termination
  by (relation "measure (\<lambda>(parts, i, result). length parts - i)") auto

declare stateLoop.simps [simp del]

text \<open>
  The second loop, \<^verbatim>\<open>for i := len(parts) - 1; i >= 0; i--\<close>: the argument \<open>n\<close> is
  \<open>i + 1\<close>, and the loop ends when it is 0.
\<close>

fun zipLoop :: "string list \<Rightarrow> nat \<Rightarrow> ValidatedAddress \<Rightarrow> panic + ValidatedAddress" where
  "zipLoop parts 0 result = Inr result"
| "zipLoop parts (Suc i) result =
     andThen (index parts i) (\<lambda>part.
       if isZipCode part then
         (if i > 0 then
            andThen (index parts (i - 1)) (\<lambda>prev.
              if isState prev then
                (if i > 1
                 then andThen (sliceTo parts (i - 1)) (\<lambda>cityParts.
                        Inr (result\<lparr>ZipCode := part, State := ToUpper prev,
                          City := Join cityParts '' ''\<rparr>))
                 else Inr (result\<lparr>ZipCode := part, State := ToUpper prev\<rparr>))
              else Inr (result\<lparr>ZipCode := part\<rparr>))
          else Inr (result\<lparr>ZipCode := part\<rparr>))
       else zipLoop parts i result)"

text \<open>\<^verbatim>\<open>^\d+\<close>\<close>

definition leadingDigits :: "char rx" where
  "leadingDigits = seq [Bgn, Many isDigit 1 True]"

definition parsePartialAddress :: "string \<Rightarrow> panic + ValidatedAddress option" where
  "parsePartialAddress address =
     (let parts0 = Fields address in
      if length parts0 < 2 then Inr None
      else
        andThen (index parts0 0) (\<lambda>first.
        andThen (if MatchString leadingDigits first
                 then andThen (sliceFrom parts0 1) (\<lambda>rest.
                        Inr (emptyAddress\<lparr>StreetNumber := first\<rparr>, rest))
                 else Inr (emptyAddress, parts0)) (\<lambda>(r0, parts).
        andThen (stateLoop parts 0 r0) (\<lambda>r1.
        andThen (if StreetNumber r1 \<noteq> [] \<and> State r1 = []
                 then zipLoop parts (length parts) r1 else Inr r1) (\<lambda>r2.
          Inr (Some (if StreetNumber r2 \<noteq> [] \<and> City r2 = [] \<and> State r2 = []
                     then r2\<lparr>StreetName := Join parts '' ''\<rparr> else r2)))))))"

definition parseAddress :: "string \<Rightarrow> panic + ValidatedAddress option" where
  "parseAddress address =
     (case FindStringSubmatch fullPattern address of
        Some matches \<Rightarrow> parseFullAddress matches
      | None \<Rightarrow>
          (case FindStringSubmatch simplePattern address of
             Some matches \<Rightarrow> parseSimpleAddress matches
           | None \<Rightarrow> parsePartialAddress address))"

section \<open>The Standardizer\<close>

text \<open>
  One word of \<^verbatim>\<open>toTitleCase\<close>: \<^verbatim>\<open>strings.ToUpper(string(word[0])) + word[1:]\<close> when the
  word is not empty.
\<close>

definition capitalize :: "string \<Rightarrow> panic + string" where
  "capitalize word =
     (if length word > 0
      then andThen (index word 0) (\<lambda>c.
           andThen (sliceFrom word 1) (\<lambda>rest. Inr (ToUpper [c] @ rest)))
      else Inr word)"

definition toTitleCase :: "string \<Rightarrow> panic + string" where
  "toTitleCase s =
     andThen (forEach capitalize (Fields (ToLower s))) (\<lambda>words. Inr (Join words '' ''))"

text \<open>
  \<^verbatim>\<open>regexp.MustCompile(`(?i)\b` + regexp.QuoteMeta(abbrev) + `\b`).ReplaceAllString(s, full)\<close>
  for an \<open>abbrev\<close> of letters, as every key of the tables is: a match starts and ends at a
  word boundary, so it is a maximal run of word characters, equal to \<open>abbrev\<close> up to case;
  each such run is replaced by \<open>full\<close>.
\<close>

function replaceWord :: "string \<Rightarrow> string \<Rightarrow> string \<Rightarrow> string" where
  "replaceWord abbrev full [] = []"
| "replaceWord abbrev full (c # cs) =
     (if isWordChar c then
        (if EqualFold (c # takeWhile isWordChar cs) abbrev then full
         else c # takeWhile isWordChar cs) @ replaceWord abbrev full (dropWhile isWordChar cs)
      else c # replaceWord abbrev full cs)"
  by pat_completeness auto
termination
  by (relation "measure (\<lambda>(abbrev, full, s). length s)")
    (auto simp: le_imp_less_Suc length_dropWhile_le)

text \<open>A \<^verbatim>\<open>range\<close> loop over a table that rewrites the text once for every entry.\<close>

definition replaceAllWords :: "(string \<times> string) list \<Rightarrow> string \<Rightarrow> string" where
  "replaceAllWords table s = foldl (\<lambda>t (abbrev, full). replaceWord abbrev full t) s table"

definition standardizeStreetName :: "string \<Rightarrow> panic + string" where
  "standardizeStreetName streetName =
     andThen (toTitleCase (TrimSpace streetName)) (\<lambda>titled.
       Inr (replaceAllWords getCommonMisspellings (replaceAllWords getStreetSuffixes titled)))"

definition standardizeCity :: "string \<Rightarrow> panic + string" where
  "standardizeCity city = toTitleCase (TrimSpace city)"

definition standardizeState :: "string \<Rightarrow> string" where
  "standardizeState state0 =
     (let state = TrimSpace (ToUpper state0) in
      if map_of getStateAbbreviations state \<noteq> None then state
      else
        (case find (\<lambda>(abbrev, fullName). EqualFold state fullName) getStateAbbreviations of
           Some (abbrev, fullName) \<Rightarrow> abbrev
         | None \<Rightarrow> state))"

definition buildFullAddress :: "ValidatedAddress \<Rightarrow> string" where
  "buildFullAddress addr =
     (let parts1 =
            (if StreetNumber addr \<noteq> [] \<and> StreetName addr \<noteq> []
             then [StreetNumber addr @ '' '' @ StreetName addr @
                   (if Unit addr \<noteq> [] then '' '' @ Unit addr else [])]
             else []);
          parts2 = (if City addr \<noteq> [] then parts1 @ [City addr] else parts1);
          parts3 =
            (if State addr \<noteq> []
             then parts2 @
                  [State addr @
                   (if ZipCode addr \<noteq> []
                    then '' '' @ ZipCode addr @
                         (if ZipPlus4 addr \<noteq> [] then ''-'' @ ZipPlus4 addr else [])
                    else [])]
             else parts2)
      in Join parts3 '', '')"

definition standardizeAddress :: "ValidatedAddress option \<Rightarrow> panic + ValidatedAddress option" where
  "standardizeAddress p =
     (case p of
        None \<Rightarrow> Inr None
      | Some addr \<Rightarrow>
          andThen (if StreetName addr \<noteq> []
                   then andThen (standardizeStreetName (StreetName addr)) (\<lambda>n.
                          Inr (addr\<lparr>StreetName := n\<rparr>))
                   else Inr addr) (\<lambda>a1.
          andThen (if City a1 \<noteq> []
                   then andThen (standardizeCity (City a1)) (\<lambda>c. Inr (a1\<lparr>City := c\<rparr>))
                   else Inr a1) (\<lambda>a2.
            (let a3 = (if State a2 \<noteq> [] then a2\<lparr>State := standardizeState (State a2)\<rparr> else a2)
             in Inr (Some (a3\<lparr>FullAddress := buildFullAddress a3\<rparr>))))))"

section \<open>The Classifier (counting policy)\<close>

text \<open>The struct \<^verbatim>\<open>validationResult\<close>, with its fields \<^verbatim>\<open>status\<close> and \<^verbatim>\<open>message\<close>.\<close>

record validationResult =
  resultStatus :: string
  resultMessage :: string

text \<open>The list \<^verbatim>\<open>missingComponents\<close> that \<^verbatim>\<open>validateComponents\<close> builds.\<close>

definition missingComponents :: "ValidatedAddress \<Rightarrow> string list" where
  "missingComponents addr =
     (if StreetNumber addr = [] then [''street number''] else []) @
     (if StreetName addr = [] then [''street name''] else []) @
     (if City addr = [] then [''city''] else []) @
     (if State addr = [] then [''state'']
      else if \<not> isValidState (State addr) then [''valid state''] else []) @
     (if ZipCode addr = [] then [''ZIP code'']
      else if \<not> isValidZipCode (ZipCode addr) then [''valid ZIP code''] else [])"

text \<open>\<^verbatim>\<open>correctedComponents\<close> is created empty and nothing is ever appended to it.\<close>

definition correctedComponents :: "ValidatedAddress \<Rightarrow> string list" where
  "correctedComponents addr = []"

definition validateComponents :: "ValidatedAddress option \<Rightarrow> validationResult" where
  "validateComponents p =
     (case p of
        None \<Rightarrow> \<lparr>resultStatus = StatusUnverifiable, resultMessage = ''Unable to parse address''\<rparr>
      | Some addr \<Rightarrow>
          if length (missingComponents addr) > 2 then
            \<lparr>resultStatus = StatusUnverifiable,
             resultMessage = ''Missing critical components: '' @ Join (missingComponents addr) '', ''\<rparr>
          else if length (missingComponents addr) > 0 then
            \<lparr>resultStatus = StatusCorrected,
             resultMessage = ''Address standardized but missing: '' @ Join (missingComponents addr) '', ''\<rparr>
          else if length (correctedComponents addr) > 0 then
            \<lparr>resultStatus = StatusCorrected,
             resultMessage = ''Address standardized with corrections: '' @
               Join (correctedComponents addr) '', ''\<rparr>
          else \<lparr>resultStatus = StatusValid, resultMessage = ''Address is valid and standardized''\<rparr>)"

section \<open>The engine (ValidateAndStandardize)\<close>

text \<open>
  The Go function returns a response and an error; the error is \<open>None\<close> when nil. A run-time
  panic is \<open>Inl\<close>.
\<close>

datatype error = Error string

definition ValidateAndStandardize :: "string \<Rightarrow> panic + (AddressResponse \<times> error option)" where
  "ValidateAndStandardize address =
     (let response = \<lparr>Status = [], OriginalAddress = address, ValidatedAddress = None,
            Message = []\<rparr>;
          cleanedAddress = cleanAddress address
      in if cleanedAddress = [] then
           Inr (response\<lparr>Status := StatusUnverifiable,
                  Message := ''Address is empty or contains only invalid characters''\<rparr>, None)
         else
           andThen (parseAddress cleanedAddress) (\<lambda>parsedAddress.
             if parsedAddress = None then
               Inr (response\<lparr>Status := StatusUnverifiable,
                      Message := ''Unable to parse address components''\<rparr>, None)
             else
               andThen (standardizeAddress parsedAddress) (\<lambda>standardizedAddress.
                 (let validationResult = validateComponents standardizedAddress
                  in Inr (response\<lparr>ValidatedAddress := standardizedAddress,
                            Status := resultStatus validationResult,
                            Message := resultMessage validationResult\<rparr>, None)))))"

section \<open>IEEE 754 double precision\<close>

text \<open>
  A JavaScript number is a double. A finite double is a pair \<open>(m, e)\<close> of integers that
  stands for \<open>m * 2 ^ e\<close>; every operation returns it in one form (53 significant bits,
  or the exponent \<open>- 1074\<close> of the subnormal numbers; zero is \<open>(0, 0)\<close>). Infinities, NaN and
  the sign of zero are not modelled: no operation of the program reaches them.
\<close>

type_synonym double = "int \<times> int"

text \<open>The number of bits of a positive integer.\<close>

function bitlen :: "int \<Rightarrow> int" where
  "bitlen n = (if n \<le> 0 then 0 else 1 + bitlen (n div 2))"
  by pat_completeness auto
termination
  by (relation "measure nat") auto

declare bitlen.simps [simp del]

text \<open>
  The double nearest to \<open>n / d * 2 ^ x\<close> for \<open>d > 0\<close>, ties to the even mantissa: \<open>e\<close> is the
  binary exponent of \<open>\<bar>n\<bar> / d\<close>, \<open>u\<close> the exponent of the last bit that is kept, \<open>m\<close> the
  quotient by \<open>2 ^ u\<close> rounded to an integer.
\<close>

definition roundRatio :: "int \<Rightarrow> int \<Rightarrow> int \<Rightarrow> double" where
  "roundRatio n d x =
     (if n = 0 then (0, 0)
      else
        let a = \<bar>n\<bar>;
            e0 = bitlen a - bitlen d;
            e = (if (if 0 \<le> e0 then d * 2 ^ nat e0 \<le> a else d \<le> a * 2 ^ nat (- e0))
                 then e0 else e0 - 1);
            u = max (e + x - 52) (- 1074);
            t = x - u;
            num = (if 0 \<le> t then a * 2 ^ nat t else a);
            den = (if 0 \<le> t then d else d * 2 ^ nat (- t));
            q = num div den;
            r = num mod den;
            m = (if 2 * r < den then q
                 else if den < 2 * r then q + 1
                 else if even q then q else q + 1)
        in if m = 2 ^ 53 then (sgn n * 2 ^ 52, u + 1) else (sgn n * m, u))"

text \<open>The decimal literal \<open>n / 10 ^ k\<close> of the source text.\<close>

definition lit :: "int \<Rightarrow> nat \<Rightarrow> double" where
  "lit n k = roundRatio n (10 ^ k) 0"

definition fsub :: "double \<Rightarrow> double \<Rightarrow> double" where
  "fsub a b =
     (let e = min (snd a) (snd b)
      in roundRatio (fst a * 2 ^ nat (snd a - e) - fst b * 2 ^ nat (snd b - e)) 1 e)"

definition fmul :: "double \<Rightarrow> double \<Rightarrow> double" where
  "fmul a b = roundRatio (fst a * fst b) 1 (snd a + snd b)"

text \<open>Division by a number that is not zero.\<close>

definition fdiv :: "double \<Rightarrow> double \<Rightarrow> double" where
  "fdiv a b = roundRatio (fst a * sgn (fst b)) \<bar>fst b\<bar> (snd a - snd b)"

definition fless :: "double \<Rightarrow> double \<Rightarrow> bool" where
  "fless a b =
     (let e = min (snd a) (snd b)
      in fst a * 2 ^ nat (snd a - e) < fst b * 2 ^ nat (snd b - e))"

definition mathMax :: "double \<Rightarrow> double \<Rightarrow> double" where
  "mathMax a b = (if fless a b then b else a)"

definition mathMin :: "double \<Rightarrow> double \<Rightarrow> double" where
  "mathMin a b = (if fless b a then b else a)"

text \<open>\<^verbatim>\<open>Math.round\<close>: the integer \<open>\<lfloor>a + 1/2\<rfloor>\<close>.\<close>

definition mathRound :: "double \<Rightarrow> double" where
  "mathRound a =
     (if 0 \<le> snd a then a
      else roundRatio ((2 * fst a + 2 ^ nat (- snd a)) div 2 ^ nat (1 - snd a)) 1 0)"

text \<open>The rational number that a double stands for.\<close>

definition dval :: "double \<Rightarrow> rat" where
  "dval a =
     (if 0 \<le> snd a then of_int (fst a) * 2 ^ nat (snd a)
      else of_int (fst a) / 2 ^ nat (- snd a))"

section \<open>JavaScript strings\<close>

text \<open>
  A JavaScript string is a sequence of UTF-16 code units. A code unit below 128 is \<open>Ascii\<close> of
  its character, any other is \<open>Wide\<close> of its number. \<open>js\<close> is the string of an ASCII literal.
\<close>

datatype unit16 = Ascii char | Wide int

type_synonym jstring = "unit16 list"

definition js :: "string \<Rightarrow> jstring" where
  "js s = map Ascii s"

definition isDigitUnit :: "unit16 \<Rightarrow> bool" where
  "isDigitUnit u = (case u of Ascii c \<Rightarrow> isDigit c | Wide n \<Rightarrow> False)"

definition isLetterUnit :: "unit16 \<Rightarrow> bool" where
  "isLetterUnit u = (case u of Ascii c \<Rightarrow> isLetter c | Wide n \<Rightarrow> False)"

text \<open>The class \<^verbatim>\<open>\w\<close> of a JavaScript regular expression without the flags \<^verbatim>\<open>u\<close>, \<^verbatim>\<open>i\<close>.\<close>

definition isWordUnit :: "unit16 \<Rightarrow> bool" where
  "isWordUnit u = (case u of Ascii c \<Rightarrow> isWordChar c | Wide n \<Rightarrow> False)"

text \<open>
  White space and line terminators, the class \<^verbatim>\<open>\s\<close> and what \<^verbatim>\<open>trim\<close> removes: U+0009 to
  U+000D, U+0020, U+00A0, U+1680, U+2000 to U+200A, U+2028, U+2029, U+202F, U+205F, U+3000 and
  U+FEFF.
\<close>

definition isJsSpace :: "unit16 \<Rightarrow> bool" where
  "isJsSpace u =
     (case u of
        Ascii c \<Rightarrow> isAsciiSpace c
      | Wide n \<Rightarrow>
          n = 160 \<or> n = 5760 \<or> (8192 \<le> n \<and> n \<le> 8202) \<or> n = 8232 \<or> n = 8233 \<or>
          n = 8239 \<or> n = 8287 \<or> n = 12288 \<or> n = 65279)"

text \<open>The characters of a string of ASCII units, \<open>None\<close> for any other string.\<close>

fun asciiText :: "jstring \<Rightarrow> string option" where
  "asciiText [] = Some []"
| "asciiText (Ascii c # us) = (case asciiText us of None \<Rightarrow> None | Some s \<Rightarrow> Some (c # s))"
| "asciiText (Wide n # us) = None"

text \<open>
  \<^verbatim>\<open>toLowerCase\<close> and \<^verbatim>\<open>toUpperCase\<close> change the letters of an ASCII string and nothing
  else of it. On any other string they follow the Unicode case mappings; these are the two
  functions of the parameter \<open>U\<close>, about which nothing is assumed.
\<close>

record unicode =
  lowerCase :: "jstring \<Rightarrow> jstring"
  upperCase :: "jstring \<Rightarrow> jstring"

definition toLowerCase :: "unicode \<Rightarrow> jstring \<Rightarrow> jstring" where
  "toLowerCase U s = (case asciiText s of Some t \<Rightarrow> js (ToLower t) | None \<Rightarrow> lowerCase U s)"

definition toUpperCase :: "unicode \<Rightarrow> jstring \<Rightarrow> jstring" where
  "toUpperCase U s = (case asciiText s of Some t \<Rightarrow> js (ToUpper t) | None \<Rightarrow> upperCase U s)"

definition trim :: "jstring \<Rightarrow> jstring" where
  "trim s = rev (dropWhile isJsSpace (rev (dropWhile isJsSpace s)))"

definition space :: unit16 where
  "space = Ascii CHR '' ''"

text \<open>\<^verbatim>\<open>s.split(' ')\<close>\<close>

function split :: "jstring \<Rightarrow> jstring list" where
  "split s =
     (case dropWhile (\<lambda>c. c \<noteq> space) s of
        [] \<Rightarrow> [s]
      | c # rest \<Rightarrow> takeWhile (\<lambda>c. c \<noteq> space) s # split rest)"
  by pat_completeness auto
termination
proof (relation "measure length")
  fix s :: jstring and c rest
  assume "dropWhile (\<lambda>c. c \<noteq> space) s = c # rest"
  then have "length (c # rest) \<le> length s"
    by (metis length_dropWhile_le)
  then show "(rest, s) \<in> measure length" by simp
qed simp

declare split.simps [simp del]

text \<open>\<^verbatim>\<open>xs.join(sep)\<close> for an array of strings.\<close>

fun join :: "jstring list \<Rightarrow> jstring \<Rightarrow> jstring" where
  "join [] sep = []"
| "join [x] sep = x"
| "join (x # y # ys) sep = x @ sep @ join (y # ys) sep"

section \<open>JavaScript objects\<close>

text \<open>
  A table of the program is an object literal. Reading \<^verbatim>\<open>table[key]\<close> gives the value of
  the key, or else the member of that name that every object inherits from
  \<^verbatim>\<open>Object.prototype\<close>, or else \<^verbatim>\<open>undefined\<close> (\<open>None\<close>). An inherited member is an object,
  not a string, and is truthy. Every name in a table or in the prototype is ASCII.
\<close>

datatype jsval = Str jstring | Inherited string

definition objectPrototype :: "string list" where
  "objectPrototype =
     [''constructor'', ''__defineGetter__'', ''__defineSetter__'', ''hasOwnProperty'',
      ''__lookupGetter__'', ''__lookupSetter__'', ''isPrototypeOf'', ''propertyIsEnumerable'',
      ''toString'', ''valueOf'', ''__proto__'', ''toLocaleString'']"

definition property :: "(string \<times> string) list \<Rightarrow> jstring \<Rightarrow> jsval option" where
  "property table key =
     (case asciiText key of
        None \<Rightarrow> None
      | Some name \<Rightarrow>
          (case map_of table name of
             Some v \<Rightarrow> Some (Str (js v))
           | None \<Rightarrow> if List.member objectPrototype name then Some (Inherited name) else None))"

text \<open>\<^verbatim>\<open>Object.keys(table).includes(key)\<close> and \<^verbatim>\<open>Object.values(table).includes(key)\<close>\<close>

definition keysInclude :: "(string \<times> string) list \<Rightarrow> jstring \<Rightarrow> bool" where
  "keysInclude table key =
     (case asciiText key of None \<Rightarrow> False | Some name \<Rightarrow> List.member (map fst table) name)"

definition valuesInclude :: "(string \<times> string) list \<Rightarrow> jstring \<Rightarrow> bool" where
  "valuesInclude table key =
     (case asciiText key of None \<Rightarrow> False | Some name \<Rightarrow> List.member (map snd table) name)"

fun truthy :: "jsval option \<Rightarrow> bool" where
  "truthy None = False"
| "truthy (Some (Str s)) = (s \<noteq> [])"
| "truthy (Some (Inherited name)) = True"

text \<open>The string of a value, as \<^verbatim>\<open>join\<close> and a template literal make it (V8 prints a built-in
  function this way).\<close>

fun toString :: "jsval \<Rightarrow> jstring" where
  "toString (Str s) = s"
| "toString (Inherited name) =
     (if name = ''__proto__'' then js ''[object Object]''
      else js ''function '' @ js (if name = ''constructor'' then ''Object'' else name) @
           js ''() { [native code] }'')"

text \<open>
  Reading a method of \<^verbatim>\<open>xs[i]\<close> throws a \<^verbatim>\<open>TypeError\<close> when \<open>i\<close> is outside the array,
  where \<^verbatim>\<open>xs[i]\<close> is \<^verbatim>\<open>undefined\<close>.
\<close>

datatype jserror = TypeError

definition element :: "'a list \<Rightarrow> nat \<Rightarrow> jserror + 'a" where
  "element xs i = (if i < length xs then Inr (xs ! i) else Inl TypeError)"

section \<open>The tables of addressValidator.ts\<close>

definition stateAbbreviations :: "(string \<times> string) list" where
  "stateAbbreviations =
    [(''alabama'', ''AL''), (''alaska'', ''AK''), (''arizona'', ''AZ''), (''arkansas'', ''AR''),
     (''california'', ''CA''), (''colorado'', ''CO''), (''connecticut'', ''CT''),
     (''delaware'', ''DE''), (''florida'', ''FL''), (''georgia'', ''GA''), (''hawaii'', ''HI''),
     (''idaho'', ''ID''), (''illinois'', ''IL''), (''indiana'', ''IN''), (''iowa'', ''IA''),
     (''kansas'', ''KS''), (''kentucky'', ''KY''), (''louisiana'', ''LA''), (''maine'', ''ME''),
     (''maryland'', ''MD''), (''massachusetts'', ''MA''), (''michigan'', ''MI''),
     (''minnesota'', ''MN''), (''mississippi'', ''MS''), (''missouri'', ''MO''),
     (''montana'', ''MT''), (''nebraska'', ''NE''), (''nevada'', ''NV''),
     (''new hampshire'', ''NH''), (''new jersey'', ''NJ''), (''new mexico'', ''NM''),
     (''new york'', ''NY''), (''north carolina'', ''NC''), (''north dakota'', ''ND''),
     (''ohio'', ''OH''), (''oklahoma'', ''OK''), (''oregon'', ''OR''), (''pennsylvania'', ''PA''),
     (''rhode island'', ''RI''), (''south carolina'', ''SC''), (''south dakota'', ''SD''),
     (''tennessee'', ''TN''), (''texas'', ''TX''), (''utah'', ''UT''), (''vermont'', ''VT''),
     (''virginia'', ''VA''), (''washington'', ''WA''), (''west virginia'', ''WV''),
     (''wisconsin'', ''WI''), (''wyoming'', ''WY''), (''district of columbia'', ''DC'')]"

definition streetAbbreviations :: "(string \<times> string) list" where
  "streetAbbreviations =
    [(''st'', ''Street''), (''ave'', ''Avenue''), (''blvd'', ''Boulevard''), (''dr'', ''Drive''),
     (''rd'', ''Road''), (''ct'', ''Court''), (''cir'', ''Circle''), (''ln'', ''Lane''),
     (''way'', ''Way''), (''pl'', ''Place''), (''pkwy'', ''Parkway''), (''ter'', ''Terrace''),
     (''sq'', ''Square''), (''hwy'', ''Highway'')]"

definition directions :: "(string \<times> string) list" where
  "directions =
    [(''n'', ''North''), (''s'', ''South''), (''e'', ''East''), (''w'', ''West''),
     (''ne'', ''Northeast''), (''nw'', ''Northwest''), (''se'', ''Southeast''),
     (''sw'', ''Southwest'')]"

section \<open>The scoring engine (addressValidator.ts)\<close>

text \<open>The five components are \<^verbatim>\<open>Partial<ValidatedAddress>\<close>; a null component is \<open>None\<close>.\<close>

record PartialValidatedAddress =
  streetNumber :: "jstring option"
  streetName :: "jstring option"
  city :: "jstring option"
  state :: "jsval option"
  zipCode :: "jstring option"

record ValidatedAddressTS = PartialValidatedAddress +
  formatted :: jstring

record AddressValidationResult =
  status :: string
  confidence :: double
  original :: jstring
  validated :: "ValidatedAddressTS option"
  corrections :: "string list option"

text \<open>A string or null in a condition: true when it is a string that is not empty.\<close>

definition present :: "jstring option \<Rightarrow> bool" where
  "present x = (case x of None \<Rightarrow> False | Some s \<Rightarrow> s \<noteq> [])"

text \<open>\<^verbatim>\<open>.replace(/\s+/g, ' ')\<close>\<close>

function collapseSpaces :: "jstring \<Rightarrow> jstring" where
  "collapseSpaces [] = []"
| "collapseSpaces (c # cs) =
     (if isJsSpace c then space # collapseSpaces (dropWhile isJsSpace cs)
      else c # collapseSpaces cs)"
  by pat_completeness auto
termination
  by (relation "measure length") (auto simp: le_imp_less_Suc length_dropWhile_le)

definition normalizeAddress :: "unicode \<Rightarrow> jstring \<Rightarrow> jstring" where
  "normalizeAddress U address =
     collapseSpaces
       (map (\<lambda>c. if c = Ascii CHR '','' \<or> c = Ascii CHR ''.'' then space else c)
         (trim (toLowerCase U address)))"

text \<open>\<^verbatim>\<open>/\b(\d{5}(?:-\d{4})?)\b/\<close>\<close>

definition zipPattern :: "unit16 rx" where
  "zipPattern =
     seq [Wb isWordUnit,
          Grp 1 (seq [times 5 (One isDigitUnit),
                      Opt (seq [One (\<lambda>c. c = Ascii CHR ''-''), times 4 (One isDigitUnit)])]),
          Wb isWordUnit]"

text \<open>\<open>parts.splice(i, 1)\<close>\<close>

definition splice :: "'a list \<Rightarrow> nat \<Rightarrow> 'a list" where
  "splice xs i = take i xs @ drop (Suc i) xs"

text \<open>
  The loop \<^verbatim>\<open>for (let i = parts.length - 1; i >= 0; i--)\<close> of \<^verbatim>\<open>extractZipCode\<close>: the
  argument is \<open>i + 1\<close>. The result is the ZIP code and the array that the call leaves.
\<close>

fun extractZipCodeFrom :: "jstring list \<Rightarrow> nat \<Rightarrow> jserror + (jstring option \<times> jstring list)" where
  "extractZipCodeFrom parts 0 = Inr (None, parts)"
| "extractZipCodeFrom parts (Suc i) =
     andThen (element parts i) (\<lambda>part.
       case FindStringSubmatch zipPattern part of
         Some match \<Rightarrow> Inr (if 1 < length match then Some (match ! 1) else None, splice parts i)
       | None \<Rightarrow> extractZipCodeFrom parts i)"

definition extractZipCode :: "jstring list \<Rightarrow> jserror + (jstring option \<times> jstring list)" where
  "extractZipCode parts = extractZipCodeFrom parts (length parts)"

text \<open>\<open>a || b\<close> for a table entry \<open>a\<close> and a string \<open>b\<close>.\<close>

definition orElse :: "jsval option \<Rightarrow> jstring \<Rightarrow> jsval" where
  "orElse a b = (case a of None \<Rightarrow> Str b | Some v \<Rightarrow> if truthy (Some v) then v else Str b)"

fun extractStateFrom ::
    "unicode \<Rightarrow> jstring list \<Rightarrow> nat \<Rightarrow> jserror + (jsval option \<times> jstring list)" where
  "extractStateFrom U parts 0 = Inr (None, parts)"
| "extractStateFrom U parts (Suc i) =
     andThen (element parts i) (\<lambda>raw.
       let part = toLowerCase U raw in
       if (if truthy (property stateAbbreviations part) then True
           else valuesInclude stateAbbreviations (toUpperCase U part))
       then Inr (Some (orElse (property stateAbbreviations part) (toUpperCase U part)),
                 splice parts i)
       else extractStateFrom U parts i)"

definition extractState :: "unicode \<Rightarrow> jstring list \<Rightarrow> jserror + (jsval option \<times> jstring list)" where
  "extractState U parts = extractStateFrom U parts (length parts)"

text \<open>\<^verbatim>\<open>/^\d+[A-Za-z]?$/\<close>\<close>

definition numberPattern :: "unit16 rx" where
  "numberPattern =
     seq [Bgn, Many isDigitUnit 1 True, Opt (One isLetterUnit), End]"

text \<open>\<^verbatim>\<open>number.replace(/([a-z])$/, (match) => match.toUpperCase())\<close>\<close>

definition upperLast :: "jstring \<Rightarrow> jstring" where
  "upperLast s =
     (case rev s of
        Ascii c # before \<Rightarrow> if isLower c then rev before @ [Ascii (toUpperByte c)] else s
      | _ \<Rightarrow> s)"

definition extractStreetNumber :: "jstring list \<Rightarrow> jstring option \<times> jstring list" where
  "extractStreetNumber parts =
     (case parts of
        [] \<Rightarrow> (None, parts)
      | first # rest \<Rightarrow>
          if MatchString numberPattern first
          then (if first \<noteq> [] then Some (upperLast first) else None, rest)
          else (None, parts))"

text \<open>An element of \<^verbatim>\<open>words\<close> after a table entry has been written into it.\<close>

definition expandWord :: "unicode \<Rightarrow> (string \<times> string) list \<Rightarrow> jstring \<Rightarrow> jsval \<times> bool" where
  "expandWord U table w =
     (if truthy (property table (toLowerCase U w))
      then (orElse (property table (toLowerCase U w)) w, True)
      else (Str w, False))"

definition expandStreetType :: "unicode \<Rightarrow> jstring \<Rightarrow> jserror + (jstring \<times> bool)" where
  "expandStreetType U name =
     (let words = split name in
      andThen (element words (length words - 1)) (\<lambda>lastWord.
        if snd (expandWord U streetAbbreviations lastWord)
        then Inr (join (map toString
                    (map Str (butlast words) @ [fst (expandWord U streetAbbreviations lastWord)]))
                    (js '' ''), True)
        else Inr (name, False)))"

definition expandDirections :: "unicode \<Rightarrow> jstring \<Rightarrow> jstring \<times> bool" where
  "expandDirections U name =
     (let words = map (expandWord U directions) (split name)
      in (join (map (\<lambda>w. toString (fst w)) words) (js '' ''), list_ex snd words))"

definition calculateConfidence :: "'a PartialValidatedAddress_scheme \<Rightarrow> string list \<Rightarrow> double" where
  "calculateConfidence parsed notes =
     (let c0 = lit 9 1;
          c1 = (if \<not> present (streetNumber parsed) then fsub c0 (lit 2 1) else c0);
          c2 = (if \<not> present (streetName parsed) then fsub c1 (lit 3 1) else c1);
          c3 = (if \<not> present (city parsed) then fsub c2 (lit 2 1) else c2);
          c4 = (if \<not> truthy (state parsed) then fsub c3 (lit 2 1) else c3);
          c5 = (if \<not> present (zipCode parsed) then fsub c4 (lit 1 1) else c4);
          c6 = fsub c5 (fmul (roundRatio (int (length notes)) 1 0) (lit 5 2))
      in mathMax (lit 1 1) (mathMin (lit 1 0) c6))"

text \<open>
  \<^verbatim>\<open>/\b(street|st|avenue|ave|road|rd|drive|dr|lane|ln|way|court|ct|circle|cir|boulevard|blvd|place|pl)\b/i\<close>;
  under the flag \<^verbatim>\<open>i\<close> alone a letter of the pattern matches its two ASCII cases.
\<close>

definition foldUnits :: "string \<Rightarrow> unit16 rx" where
  "foldUnits w =
     seq (map (\<lambda>a. One (\<lambda>x. case x of Ascii c \<Rightarrow> toLowerByte c = a | Wide n \<Rightarrow> False)) w)"

definition streetIndicators :: "unit16 rx" where
  "streetIndicators =
     seq [Wb isWordUnit,
          Grp 1 (alts (map foldUnits
            [''street'', ''st'', ''avenue'', ''ave'', ''road'', ''rd'', ''drive'', ''dr'', ''lane'',
             ''ln'', ''way'', ''court'', ''ct'', ''circle'', ''cir'', ''boulevard'', ''blvd'',
             ''place'', ''pl''])),
          Wb isWordUnit]"

text \<open>The branch of \<^verbatim>\<open>validateAddress\<close> that splits the remaining parts into city and street
  name; the result is \<open>(city, streetName)\<close>.\<close>

definition cityAndStreet ::
    "unicode \<Rightarrow> jstring option \<Rightarrow> jstring list \<Rightarrow> jserror + (jstring option \<times> jstring option)" where
  "cityAndStreet U number parts =
     (if length parts > 0 then
        (if length parts \<ge> 2 then
           andThen (element parts (length parts - 1)) (\<lambda>final.
             if keysInclude streetAbbreviations (toLowerCase U final)
             then Inr (None, Some (join parts (js '' '')))
             else Inr (if last parts \<noteq> [] then Some (last parts) else None,
                       Some (join (butlast parts) (js '' ''))))
         else
           (let singlePart = join parts (js '' '') in
            if present number then Inr (None, Some singlePart)
            else if MatchString streetIndicators singlePart then Inr (None, Some singlePart)
            else Inr (Some singlePart, None)))
      else Inr (None, None))"

text \<open>\<^verbatim>\<open>streetName.replace(/\b\w/g, l => l.toUpperCase())\<close>; \<open>p\<close> is the unit before.\<close>

fun upperInitials :: "unit16 option \<Rightarrow> jstring \<Rightarrow> jstring" where
  "upperInitials p [] = []"
| "upperInitials p (c # cs) =
     (if isWordUnit c \<and> \<not> (case p of None \<Rightarrow> False | Some q \<Rightarrow> isWordUnit q)
      then (case c of Ascii a \<Rightarrow> Ascii (toUpperByte a) | Wide n \<Rightarrow> c) else c) #
     upperInitials (Some c) cs"

text \<open>A string or null inside a template literal, where it is known to be a string.\<close>

definition str :: "jstring option \<Rightarrow> jstring" where
  "str x = (case x of None \<Rightarrow> [] | Some s \<Rightarrow> s)"

text \<open>
  \<^verbatim>\<open>formatted\<close>: the array of the street line, the city and the state with the ZIP code,
  filtered by truthiness and joined.
\<close>

definition formatAddress :: "'a PartialValidatedAddress_scheme \<Rightarrow> jstring" where
  "formatAddress p =
     (let line =
            (if present (streetNumber p) \<and> present (streetName p)
             then Some (Str (str (streetNumber p) @ js '' '' @ str (streetName p)))
             else if present (streetName p) then map_option Str (streetName p)
             else Some (Str []));
          town = map_option Str (city p);
          region =
            (if truthy (state p) \<and> present (zipCode p)
             then Some (Str ((case state p of None \<Rightarrow> [] | Some v \<Rightarrow> toString v) @ js '' '' @
                             str (zipCode p)))
             else if truthy (state p) then state p
             else if present (zipCode p) then map_option Str (zipCode p)
             else Some (Str []))
      in join (map toString
           (List.map_filter (\<lambda>part. if truthy part then part else None) [line, town, region]))
           (js '', ''))"

definition validateAddress :: "unicode \<Rightarrow> jstring \<Rightarrow> jserror + AddressValidationResult" where
  "validateAddress U address =
     (let normalized = normalizeAddress U address;
          parts0 = filter (\<lambda>part. length part > 0) (split normalized)
      in if length parts0 = 0 then
           Inr \<lparr>status = ''unverifiable'', confidence = lit 0 1, original = address,
                validated = None, corrections = Some [''Empty or invalid address provided'']\<rparr>
         else
           andThen (extractZipCode parts0) (\<lambda>(zip, parts1).
           andThen (extractState U parts1) (\<lambda>(st, parts2).
           (case extractStreetNumber parts2 of (number, parts3) \<Rightarrow>
           andThen (cityAndStreet U number parts3) (\<lambda>(city0, street0).
           andThen (if present street0
                    then (case expandDirections U (str street0) of (expanded, corrected) \<Rightarrow>
                          (let notes1 = (if corrected then [''Direction abbreviations expanded'']
                                         else []);
                               street1 = (if corrected then Some expanded else street0)
                           in andThen (expandStreetType U (str street1)) (\<lambda>(expanded2, corrected2).
                                Inr (if corrected2
                                     then (Some expanded2,
                                           notes1 @ [''Street type abbreviation expanded''])
                                     else (street1, notes1)))))
                    else Inr (street0, [])) (\<lambda>(street2, notes).
           (let city1 = (if present city0
                         then Some (toUpperCase U (take 1 (str city0)) @
                                    toLowerCase U (drop 1 (str city0)))
                         else city0);
                street3 = (if present street2 then Some (upperInitials None (str street2))
                           else street2);
                parsed = \<lparr>streetNumber = number, streetName = street3, city = city1, state = st,
                          zipCode = zip\<rparr>;
                conf = calculateConfidence parsed notes;
                status1 = (if length notes > 0 then ''corrected'' else ''valid'');
                status2 = (if fless conf (lit 3 1) \<or> (\<not> present street3 \<and> \<not> present city1)
                           then ''unverifiable'' else status1)
            in Inr \<lparr>status = status2,
                    confidence = fdiv (mathRound (fmul conf (lit 100 0))) (lit 100 0),
                    original = address,
                    validated = Some \<lparr>streetNumber = number, streetName = street3, city = city1,
                      state = st, zipCode = zip, formatted = formatAddress parsed\<rparr>,
                    corrections = (if length notes > 0 then Some notes else None)\<rparr>)))))))"

text \<open>The case mappings play no part on ASCII text.\<close>

definition asciiOnly :: unicode where
  "asciiOnly = \<lparr>lowerCase = (\<lambda>s. s), upperCase = (\<lambda>s. s)\<rparr>"

section \<open>Properties of the Cleaner\<close>

lemma replaceSpaceRuns_space:
  "c \<in> set (replaceSpaceRuns s) \<Longrightarrow> isReSpace c \<Longrightarrow> c = CHR '' ''"
proof (induction s rule: replaceSpaceRuns.induct)
  case 1
  then show ?case by simp
next
  case (2 x xs)
  then show ?case by (auto split: if_splits)
qed

text \<open>The characters of a cleaned text: word characters, the space and \<^verbatim>\<open>- . # / ,\<close>.\<close>

definition isCleanChar :: "char \<Rightarrow> bool" where
  "isCleanChar c = (isWordChar c \<or> c = CHR '' '' \<or> c \<in> set ''-.#/,'')"

lemma cleanAddress_chars: "c \<in> set (cleanAddress address) \<Longrightarrow> isCleanChar c"
proof -
  assume c: "c \<in> set (cleanAddress address)"
  then have "cleanAddress address = filter isKept (replaceSpaceRuns (TrimSpace address))"
    by (auto simp: cleanAddress_def Let_def split: if_splits)
  with c have k: "isKept c" and m: "c \<in> set (replaceSpaceRuns (TrimSpace address))"
    by auto
  from k consider "isWordChar c" | "isReSpace c" | "c \<in> set ''-.#/,''"
    unfolding isKept_def by blast
  then show ?thesis
  proof cases
    case 2
    then show ?thesis using replaceSpaceRuns_space [OF m] by (simp add: isCleanChar_def)
  qed (auto simp: isCleanChar_def)
qed

text \<open>
  The invariant of CleanedText in the words of the specification: empty, or at least 5
  characters once trimmed, every run of white space a single space, and only alphanumeric
  characters, white space and \<^verbatim>\<open>- . # / ,\<close>.
\<close>

fun singleSpaces :: "string \<Rightarrow> bool" where
  "singleSpaces [] = True"
| "singleSpaces [c] = (isAsciiSpace c \<longrightarrow> c = CHR '' '')"
| "singleSpaces (c # d # cs) =
     ((isAsciiSpace c \<longrightarrow> c = CHR '' '' \<and> \<not> isAsciiSpace d) \<and> singleSpaces (d # cs))"

definition isSpecChar :: "char \<Rightarrow> bool" where
  "isSpecChar c = (isLetter c \<or> isDigit c \<or> isAsciiSpace c \<or> c \<in> set ''-.#/,'')"

definition CleanedText :: "string \<Rightarrow> bool" where
  "CleanedText t =
     (t = [] \<or> (5 \<le> length (TrimSpace t) \<and> singleSpaces t \<and> list_all isSpecChar t))"

lemma cleanAddress_example: "cleanAddress ''12 @ Main_St'' = ''12  Main_St''"
  by code_simp

text \<open>
  C5, as stated, fails: on \<^verbatim>\<open>12 @ Main_St\<close> the Cleaner returns \<^verbatim>\<open>12  Main_St\<close>. The
  underscore is a word character of \<^verbatim>\<open>\w\<close> and stays, and the two spaces around the removed
  \<^verbatim>\<open>@\<close> are now adjacent, since white space is collapsed before characters are removed.
\<close>

theorem cleanAddress_not_CleanedText:
  "cleanAddress ''12 @ Main_St'' = ''12  Main_St'' \<and>
   \<not> singleSpaces (cleanAddress ''12 @ Main_St'') \<and>
   \<not> list_all isSpecChar (cleanAddress ''12 @ Main_St'') \<and>
   \<not> CleanedText (cleanAddress ''12 @ Main_St'')"
  unfolding cleanAddress_example by code_simp

text \<open>
  C5, amended: the Cleaner returns the empty text, or a text of at least 5 bytes once trimmed
  whose every character is an ASCII letter, a digit, an underscore, a space or one of
  \<^verbatim>\<open>- . # / ,\<close> (so the space is its only white space).
\<close>

theorem cleanAddress_invariant:
  "cleanAddress address = [] \<or>
   (5 \<le> length (TrimSpace (cleanAddress address)) \<and>
    (\<forall>c \<in> set (cleanAddress address). isCleanChar c))"
proof (cases "cleanAddress address = []")
  case True
  then show ?thesis by simp
next
  case False
  then have "\<not> length (TrimSpace (cleanAddress address)) < 5"
    by (auto simp: cleanAddress_def Let_def split: if_splits)
  then show ?thesis using cleanAddress_chars by auto
qed

theorem cleanAddress_invariant_witness:
  "cleanAddress ''12 @ Main_St'' \<noteq> [] \<and>
   5 \<le> length (TrimSpace (cleanAddress ''12 @ Main_St'')) \<and>
   list_all isCleanChar (cleanAddress ''12 @ Main_St'')"
  using cleanAddress_invariant [of "''12 @ Main_St''"]
  by (simp add: cleanAddress_example list_all_iff)

section \<open>Properties of the Classifier\<close>

text \<open>The known set of states: the 51 keys of the table.\<close>

definition knownStates :: "string list" where
  "knownStates = map fst getStateAbbreviations"

lemma knownStates_count: "length knownStates = 51 \<and> distinct knownStates"
  by code_simp

text \<open>
  The count of the counting policy in the words of the specification: the absent fields among
  street number, street name, city, state and ZIP, a present state that is not in the known
  set, and a present ZIP that does not match \<^verbatim>\<open>^\d{5}(-\d{4})?$\<close>.
\<close>

definition absentOrInvalid :: "ValidatedAddress \<Rightarrow> nat" where
  "absentOrInvalid addr =
     (if StreetNumber addr = [] then 1 else 0) +
     (if StreetName addr = [] then 1 else 0) +
     (if City addr = [] then 1 else 0) +
     (if State addr = [] then 1 else 0) +
     (if ZipCode addr = [] then 1 else 0) +
     (if State addr \<noteq> [] \<and> State addr \<notin> set knownStates then 1 else 0) +
     (if ZipCode addr \<noteq> [] \<and> \<not> MatchString isZipCodePattern (ZipCode addr) then 1 else 0)"

lemma isValidState_known: "ToUpper s = s \<Longrightarrow> isValidState s = (s \<in> set knownStates)"
  by (simp add: isValidState_def knownStates_def map_of_eq_None_iff)

lemma missingComponents_count:
  "ToUpper (State addr) = State addr \<Longrightarrow> length (missingComponents addr) = absentOrInvalid addr"
  by (simp add: missingComponents_def absentOrInvalid_def isValidState_known
      isValidZipCode_def isZipCode_def)

text \<open>
  C2: the classifier counts exactly the absent and invalid components, and the count decides
  status and message. The state of a parsed record is in upper case (the Parser and the
  Standardizer both write it with \<^verbatim>\<open>strings.ToUpper\<close>), which is the hypothesis; the list in
  the message is \<open>missingComponents\<close>, joined by a comma and a space.
\<close>

theorem counting_policy:
  assumes "ToUpper (State addr) = State addr"
  shows "length (missingComponents addr) = absentOrInvalid addr \<and>
    (absentOrInvalid addr = 0 \<longrightarrow>
       validateComponents (Some addr) =
         \<lparr>resultStatus = ''valid'', resultMessage = ''Address is valid and standardized''\<rparr>) \<and>
    (1 \<le> absentOrInvalid addr \<and> absentOrInvalid addr \<le> 2 \<longrightarrow>
       validateComponents (Some addr) =
         \<lparr>resultStatus = ''corrected'',
          resultMessage = ''Address standardized but missing: '' @
            Join (missingComponents addr) '', ''\<rparr>) \<and>
    (2 < absentOrInvalid addr \<longrightarrow>
       validateComponents (Some addr) =
         \<lparr>resultStatus = ''unverifiable'',
          resultMessage = ''Missing critical components: '' @
            Join (missingComponents addr) '', ''\<rparr>)"
proof -
  have n: "length (missingComponents addr) = absentOrInvalid addr"
    using assms by (rule missingComponents_count)
  have z: "(missingComponents addr = []) = (absentOrInvalid addr = 0)"
    using n by auto
  show ?thesis
    using n
    by (simp add: validateComponents_def correctedComponents_def z
        StatusValid_def StatusCorrected_def StatusUnverifiable_def)
qed

definition shortZipAddress :: ValidatedAddress where
  "shortZipAddress = emptyAddress\<lparr>StreetNumber := ''12'', StreetName := ''Main Street'',
     City := ''Albany'', State := ''NY'', ZipCode := ''1220''\<rparr>"

definition noCityAddress :: ValidatedAddress where
  "noCityAddress = emptyAddress\<lparr>StreetNumber := ''789'', StreetName := ''Main Street''\<rparr>"

definition completeAddress :: ValidatedAddress where
  "completeAddress = emptyAddress\<lparr>StreetNumber := ''12'', StreetName := ''Main Street'',
     City := ''Albany'', State := ''NY'', ZipCode := ''12207''\<rparr>"

lemma shortZipAddress_eval:
  "ToUpper (State shortZipAddress) = State shortZipAddress \<and>
   absentOrInvalid shortZipAddress = 1 \<and>
   Join (missingComponents shortZipAddress) '', '' = ''valid ZIP code''"
  by code_simp

lemma noCityAddress_eval:
  "ToUpper (State noCityAddress) = State noCityAddress \<and>
   absentOrInvalid noCityAddress = 3 \<and>
   Join (missingComponents noCityAddress) '', '' = ''city, state, ZIP code''"
  by code_simp

lemma completeAddress_eval:
  "ToUpper (State completeAddress) = State completeAddress \<and>
   absentOrInvalid completeAddress = 0"
  by code_simp

theorem counting_policy_witness:
  "ToUpper (State shortZipAddress) = State shortZipAddress \<and>
   absentOrInvalid shortZipAddress = 1 \<and>
   validateComponents (Some shortZipAddress) =
     \<lparr>resultStatus = ''corrected'',
      resultMessage = ''Address standardized but missing: valid ZIP code''\<rparr> \<and>
   absentOrInvalid noCityAddress = 3 \<and>
   validateComponents (Some noCityAddress) =
     \<lparr>resultStatus = ''unverifiable'',
      resultMessage = ''Missing critical components: city, state, ZIP code''\<rparr> \<and>
   absentOrInvalid completeAddress = 0 \<and>
   validateComponents (Some completeAddress) =
     \<lparr>resultStatus = ''valid'', resultMessage = ''Address is valid and standardized''\<rparr>"
  using counting_policy [of shortZipAddress] counting_policy [of noCityAddress]
    counting_policy [of completeAddress]
  by (simp add: shortZipAddress_eval noCityAddress_eval completeAddress_eval)

section \<open>The engine never panics\<close>

lemma andThen_Inr [simp]: "andThen (Inr x) f = f x"
  by (simp add: andThen_def)

lemma andThen_Inl [simp]: "andThen (Inl e) f = Inl e"
  by (simp add: andThen_def)

lemma index_in_range [simp]: "i < length xs \<Longrightarrow> index xs i = Inr (xs ! i)"
  by (simp add: index_def)

lemma sliceTo_in_range [simp]: "n \<le> length xs \<Longrightarrow> sliceTo xs n = Inr (take n xs)"
  by (simp add: sliceTo_def)

lemma sliceFrom_in_range [simp]: "n \<le> length xs \<Longrightarrow> sliceFrom xs n = Inr (drop n xs)"
  by (simp add: sliceFrom_def)

text \<open>The word with its first letter in upper case.\<close>

definition capitalized :: "string \<Rightarrow> string" where
  "capitalized w = (case w of [] \<Rightarrow> [] | c # cs \<Rightarrow> toUpperByte c # cs)"

lemma capitalize_total: "capitalize w = Inr (capitalized w)"
  by (cases w) (simp_all add: capitalize_def capitalized_def ToUpper_def)

lemma forEach_total: "(\<And>x. f x = Inr (g x)) \<Longrightarrow> forEach f xs = Inr (map g xs)"
  by (induction xs) simp_all

definition titleCase :: "string \<Rightarrow> string" where
  "titleCase s = Join (map capitalized (Fields (ToLower s))) '' ''"

lemma toTitleCase_total: "toTitleCase s = Inr (titleCase s)"
  by (simp add: toTitleCase_def titleCase_def forEach_total [of capitalize capitalized] capitalize_total)

lemma standardizeAddress_total: "\<exists>r. standardizeAddress (Some addr) = Inr (Some r)"
  by (simp add: standardizeAddress_def standardizeStreetName_def standardizeCity_def
      toTitleCase_total Let_def)

lemma stateLoop_total: "\<exists>r. stateLoop parts i result = Inr r"
proof (induction parts i result rule: stateLoop.induct)
  case (1 parts i result)
  show ?case
  proof (cases "i < length parts")
    case False
    then show ?thesis by (simp add: stateLoop.simps [of parts i result])
  next
    case True
    show ?thesis
    proof (cases "isState (parts ! i)")
      case False
      with True 1 show ?thesis by (simp add: stateLoop.simps [of parts i result])
    next
      case st: True
      with True show ?thesis by (simp add: stateLoop.simps [of parts i result]) 
    qed
  qed
qed

lemma zipLoop_total: "n \<le> length parts \<Longrightarrow> \<exists>r. zipLoop parts n result = Inr r"
  by (induction n) auto

lemma numSubexp_fullPattern: "numSubexp fullPattern = 8"
  by code_simp

lemma numSubexp_simplePattern: "numSubexp simplePattern = 6"
  by code_simp

lemma FindStringSubmatch_length:
  "FindStringSubmatch r s = Some m \<Longrightarrow> length m = Suc (numSubexp r)"
  by (auto simp: FindStringSubmatch_def split: option.splits)

lemma parseFullAddress_total:
  "length m = 9 \<Longrightarrow> \<exists>r. parseFullAddress m = Inr (Some r)"
  by (simp add: parseFullAddress_def)

lemma parseSimpleAddress_total:
  "length m = 7 \<Longrightarrow> \<exists>r. parseSimpleAddress m = Inr (Some r)"
  by (simp add: parseSimpleAddress_def)

text \<open>The tokens that the two loops scan, and the record they start from.\<close>

definition scanned :: "string list \<Rightarrow> string list" where
  "scanned parts0 = (if MatchString leadingDigits (parts0 ! 0) then drop 1 parts0 else parts0)"

definition numbered :: "string list \<Rightarrow> ValidatedAddress" where
  "numbered parts0 =
     (if MatchString leadingDigits (parts0 ! 0) then emptyAddress\<lparr>StreetNumber := parts0 ! 0\<rparr>
      else emptyAddress)"

lemma parsePartialAddress_loops:
  assumes "2 \<le> length (Fields address)"
  shows "parsePartialAddress address =
     andThen (stateLoop (scanned (Fields address)) 0 (numbered (Fields address))) (\<lambda>r1.
     andThen (if StreetNumber r1 \<noteq> [] \<and> State r1 = []
              then zipLoop (scanned (Fields address)) (length (scanned (Fields address))) r1
              else Inr r1) (\<lambda>r2.
       Inr (Some (if StreetNumber r2 \<noteq> [] \<and> City r2 = [] \<and> State r2 = []
                  then r2\<lparr>StreetName := Join (scanned (Fields address)) '' ''\<rparr> else r2))))"
proof -
  have "0 < length (Fields address)" and "1 \<le> length (Fields address)"
    using assms by linarith+
  note len = this
  show ?thesis
  proof (cases "MatchString leadingDigits (Fields address ! 0)")
    case True
    then have sc: "scanned (Fields address) = drop (Suc 0) (Fields address)"
      and nm: "numbered (Fields address) = emptyAddress\<lparr>StreetNumber := Fields address ! 0\<rparr>"
      by (simp_all add: scanned_def numbered_def)
    show ?thesis
      unfolding sc nm using len assms True by (simp add: parsePartialAddress_def Let_def)
  next
    case False
    then have sc: "scanned (Fields address) = Fields address"
      and nm: "numbered (Fields address) = emptyAddress"
      by (simp_all add: scanned_def numbered_def)
    show ?thesis
      unfolding sc nm using len assms False by (simp add: parsePartialAddress_def Let_def)
  qed
qed

lemma parsePartialAddress_total: "\<exists>r. parsePartialAddress address = Inr r"
proof (cases "length (Fields address) < 2")
  case True
  then show ?thesis by (simp add: parsePartialAddress_def)
next
  case False
  define parts where "parts = scanned (Fields address)"
  obtain r1 where r1: "stateLoop parts 0 (numbered (Fields address)) = Inr r1"
    using stateLoop_total by blast
  have "\<exists>r2. (if StreetNumber r1 \<noteq> [] \<and> State r1 = []
                 then zipLoop parts (length parts) r1 else Inr r1) = Inr r2"
    using zipLoop_total [of "length parts" parts r1] by simp
  then obtain r2 where r2: "(if StreetNumber r1 \<noteq> [] \<and> State r1 = []
                 then zipLoop parts (length parts) r1 else Inr r1) = Inr r2"
    by blast
  from False have "2 \<le> length (Fields address)" by simp
  then show ?thesis
    using r1 r2 by (auto simp: parsePartialAddress_loops parts_def [symmetric] split: if_splits)
qed

lemma parseAddress_total: "\<exists>r. parseAddress address = Inr r"
proof (cases "FindStringSubmatch fullPattern address")
  case (Some m)
  then have "length m = 9"
    using FindStringSubmatch_length [of fullPattern address m] by (simp add: numSubexp_fullPattern)
  then show ?thesis using Some parseFullAddress_total [of m] by (auto simp: parseAddress_def)
next
  case None
  show ?thesis
  proof (cases "FindStringSubmatch simplePattern address")
    case (Some m)
    then have "length m = 7"
      using FindStringSubmatch_length [of simplePattern address m]
      by (simp add: numSubexp_simplePattern)
    then show ?thesis
      using Some None parseSimpleAddress_total [of m] by (auto simp: parseAddress_def)
  next
    case n2: None
    then show ?thesis
      using None parsePartialAddress_total [of address] by (simp add: parseAddress_def)
  qed
qed

lemma validateComponents_status:
  "resultStatus (validateComponents p) \<in> {StatusValid, StatusCorrected, StatusUnverifiable}"
  by (simp add: validateComponents_def split: option.splits)

lemma ValidateAndStandardize_total:
  "\<exists>response. ValidateAndStandardize address = Inr (response, None) \<and>
     Status response \<in> {''valid'', ''corrected'', ''unverifiable''}"
proof -
  obtain p where p: "parseAddress (cleanAddress address) = Inr p"
    using parseAddress_total by blast
  show ?thesis
  proof (cases p)
    case None
    with p show ?thesis
      by (simp add: ValidateAndStandardize_def Let_def StatusUnverifiable_def)
  next
    case (Some addr)
    obtain r where r: "standardizeAddress (Some addr) = Inr (Some r)"
      using standardizeAddress_total by blast
    show ?thesis
      using p Some r validateComponents_status [of "Some r"]
      by (simp add: ValidateAndStandardize_def Let_def StatusUnverifiable_def StatusValid_def
          StatusCorrected_def)
  qed
qed

section \<open>Properties of the fallback parser\<close>

lemmas char_class_defs = isDigit_def isLetter_def isUpper_def isLower_def isWordChar_def
  toUpperByte_def toLowerByte_def less_eq_char_def

lemma digit_case: "isDigit c \<Longrightarrow> toUpperByte c = c \<and> toLowerByte c = c \<and> \<not> isLetter c"
  by (auto simp: char_class_defs)

lemma letter_lower: "isLetter c \<Longrightarrow> isLetter (toLowerByte c)"
  by (auto simp: char_class_defs)

subsection \<open>TrimSpace\<close>

lemma afterSpace_Some: "afterSpace es s = Some t \<Longrightarrow> \<exists>e \<in> set es. e \<noteq> [] \<and> s = e @ t"
proof (induction es)
  case Nil
  then show ?case by simp
next
  case (Cons e es)
  show ?case
  proof (cases "take (length e) s = e \<and> e \<noteq> []")
    case True
    then have "t = drop (length e) s" using Cons.prems by simp
    then have "s = e @ t" using True by (metis append_take_drop_id)
    then show ?thesis using True by auto
  next
    case False
    then show ?thesis using Cons by auto
  qed
qed

lemma trimLeftRunes_head:
  "x \<notin> hd ` set es \<Longrightarrow> trimLeftRunes es (x # xs) = x # xs"
proof -
  assume x: "x \<notin> hd ` set es"
  have "afterSpace es (x # xs) = None"
  proof (cases "afterSpace es (x # xs)")
    case (Some t)
    then obtain e where "e \<in> set es" "e \<noteq> []" "x # xs = e @ t"
      using afterSpace_Some by blast
    then have "hd e = x" by (metis hd_append2 list.sel(1))
    with \<open>e \<in> set es\<close> x show ?thesis by auto
  qed simp
  then show ?thesis by (simp add: trimLeftRunes.simps [of es "x # xs"])
qed

lemma trimLeftRunes_last:
  "s \<noteq> [] \<Longrightarrow> last s \<notin> last ` set es \<Longrightarrow>
   trimLeftRunes es s \<noteq> [] \<and> last (trimLeftRunes es s) = last s"
proof (induction es s rule: trimLeftRunes.induct)
  case (1 es s)
  show ?case
  proof (cases "afterSpace es s")
    case None
    then show ?thesis using "1.prems" by (simp add: trimLeftRunes.simps [of es s])
  next
    case (Some t)
    then obtain e where e: "e \<in> set es" "e \<noteq> []" "s = e @ t"
      using afterSpace_Some by blast
    have "t \<noteq> []"
    proof
      assume "t = []"
      then have "last s = last e" using e by simp
      then show False using e "1.prems" by auto
    qed
    moreover have "last t = last s" using e \<open>t \<noteq> []\<close> by simp
    ultimately show ?thesis
      using "1.IH" [OF Some] "1.prems" Some by (simp add: trimLeftRunes.simps [of es s])
  qed
qed

lemma last_rev_image: "\<forall>e \<in> set es. e \<noteq> [] \<Longrightarrow> last ` set (map rev es) = hd ` set es"
  by (auto simp: last_rev image_iff)

lemma unicodeSpaces_nonempty: "\<forall>e \<in> set unicodeSpaces. e \<noteq> []"
  by (simp add: unicodeSpaces_def)

text \<open>A first character that starts no white-space rune stays the first character.\<close>

lemma TrimSpace_head:
  assumes "x \<notin> hd ` set unicodeSpaces"
  shows "\<exists>ys. TrimSpace (x # xs) = x # ys"
proof -
  have l: "trimLeftRunes unicodeSpaces (x # xs) = x # xs"
    using assms by (rule trimLeftRunes_head)
  have "last (rev (x # xs)) \<notin> last ` set (map rev unicodeSpaces)"
    using assms last_rev_image [OF unicodeSpaces_nonempty] by simp
  then have "trimLeftRunes (map rev unicodeSpaces) (rev (x # xs)) \<noteq> [] \<and>
     last (trimLeftRunes (map rev unicodeSpaces) (rev (x # xs))) = x"
    using trimLeftRunes_last [of "rev (x # xs)" "map rev unicodeSpaces"] by simp
  then have "rev (trimLeftRunes (map rev unicodeSpaces) (rev (x # xs))) \<noteq> [] \<and>
     hd (rev (trimLeftRunes (map rev unicodeSpaces) (rev (x # xs)))) = x"
    by (simp add: hd_rev)
  then show ?thesis
    unfolding TrimSpace_def l
    by (cases "rev (trimLeftRunes (map rev unicodeSpaces) (rev (x # xs)))") auto
qed

lemma digit_not_space_head: "isDigit x \<Longrightarrow> x \<notin> hd ` set unicodeSpaces"
  by (auto simp: unicodeSpaces_def isDigit_def less_eq_char_def)

subsection \<open>State tokens\<close>

lemma stateTable_letters:
  "list_all (\<lambda>(abbrev, fullName). abbrev \<noteq> [] \<and> isLetter (hd abbrev) \<and>
     fullName \<noteq> [] \<and> isLetter (hd fullName)) getStateAbbreviations"
  by code_simp

lemma isState_Nil: "\<not> isState []"
  by code_simp

lemma isState_not_digit:
  assumes "isDigit x"
  shows "\<not> isState (x # xs)"
proof
  assume st: "isState (x # xs)"
  obtain ys where ys: "TrimSpace (x # xs) = x # ys"
    using TrimSpace_head [OF digit_not_space_head [OF assms]] by blast
  have up: "ToUpper (TrimSpace (x # xs)) = x # ToUpper ys"
    using assms by (simp add: ys ToUpper_def digit_case)
  from st consider (code) "map_of getStateAbbreviations (x # ToUpper ys) \<noteq> None"
    | (name) "list_ex (\<lambda>(abbrev, fullName). EqualFold (x # ToUpper ys) fullName)
        getStateAbbreviations"
    by (auto simp: isState_def up Let_def split: if_splits)
  then show False
  proof cases
    case code
    then obtain f where "(x # ToUpper ys, f) \<in> set getStateAbbreviations"
      by (auto dest: map_of_SomeD)
    then have "isLetter x"
      using stateTable_letters by (auto simp: list_all_iff)
    then show False using assms digit_case by blast
  next
    case name
    then obtain a f where af: "(a, f) \<in> set getStateAbbreviations"
      and eq: "EqualFold (x # ToUpper ys) f"
      by (auto simp: list_ex_iff)
    from af have f: "f \<noteq> []" "isLetter (hd f)"
      using stateTable_letters by (auto simp: list_all_iff)
    from eq f have "toLowerByte x = toLowerByte (hd f)"
      by (cases f) (auto split: if_splits)
    then have "isLetter x"
      using letter_lower [OF f(2)] assms digit_case by metis
    then show False using assms digit_case by blast
  qed
qed

subsection \<open>The pattern of a street number\<close>

lemma leadingDigits_later: "searchFrom leadingDigits (Some p) s = None"
  by (induction s arbitrary: p) (simp_all add: leadingDigits_def)

lemma leadingDigits_digit:
  "MatchString leadingDigits t \<Longrightarrow> \<exists>x xs. t = x # xs \<and> isDigit x"
proof (cases t)
  case Nil
  then show "MatchString leadingDigits t \<Longrightarrow> ?thesis"
     by (simp add: MatchString_def leadingDigits_def)
next
  case (Cons x xs)
  assume "MatchString leadingDigits t"
  then have "isDigit x"
    using Cons leadingDigits_later [of x xs]
    by (auto simp: MatchString_def leadingDigits_def [symmetric] split: option.splits if_splits)
       (auto simp: leadingDigits_def split: if_splits)
  then show ?thesis using Cons by simp
qed

lemma number_not_state: "MatchString leadingDigits t \<Longrightarrow> \<not> isState t"
  using leadingDigits_digit isState_not_digit by blast

subsection \<open>The two loops\<close>

lemma stateLoop_none:
  "(\<And>k. i \<le> k \<Longrightarrow> k < length parts \<Longrightarrow> \<not> isState (parts ! k)) \<Longrightarrow>
   stateLoop parts i result = Inr result"
proof (induction parts i result rule: stateLoop.induct)
  case (1 parts i result)
  show ?case
  proof (cases "i < length parts")
    case False
    then show ?thesis by (simp add: stateLoop.simps [of parts i result])
  next
    case True
    then have ns: "\<not> isState (parts ! i)" using "1.prems" by simp
    have "stateLoop parts (i + 1) result = Inr result"
      using "1.IH" [OF True ns] True "1.prems" by simp
    then show ?thesis using True ns by (simp add: stateLoop.simps [of parts i result])
  qed
qed

text \<open>What the first loop writes when the first state token is at index \<open>j\<close>.\<close>

definition foundState :: "string list \<Rightarrow> nat \<Rightarrow> ValidatedAddress \<Rightarrow> ValidatedAddress" where
  "foundState parts j result =
     (let r = (if j > 0 then result\<lparr>State := ToUpper (parts ! j), City := Join (take j parts) '' ''\<rparr>
               else result\<lparr>State := ToUpper (parts ! j)\<rparr>)
      in if j + 1 < length parts \<and> isZipCode (parts ! (j + 1)) then r\<lparr>ZipCode := parts ! (j + 1)\<rparr>
         else r)"

lemma stateLoop_found:
  "i \<le> j \<Longrightarrow> j < length parts \<Longrightarrow> isState (parts ! j) \<Longrightarrow>
   (\<And>k. i \<le> k \<Longrightarrow> k < j \<Longrightarrow> \<not> isState (parts ! k)) \<Longrightarrow>
   stateLoop parts i result = Inr (foundState parts j result)"
proof (induction parts i result rule: stateLoop.induct)
  case (1 parts i result)
  have i: "i < length parts" using "1.prems" by simp
  show ?case
  proof (cases "i = j")
    case True
    then show ?thesis
      using "1.prems" by (auto simp: stateLoop.simps [of parts j result] foundState_def)
  next
    case False
    then have lt: "i < j" using "1.prems" by simp
    then have ns: "\<not> isState (parts ! i)" using "1.prems" by simp
    have "stateLoop parts (i + 1) result = Inr (foundState parts j result)"
      using "1.IH" [OF i ns] i lt "1.prems" by simp
    then show ?thesis using i ns by (simp add: stateLoop.simps [of parts i result])
  qed
qed

lemma zipLoop_no_state:
  "(\<And>t. t \<in> set parts \<Longrightarrow> \<not> isState t) \<Longrightarrow> n \<le> length parts \<Longrightarrow>
   \<exists>r. zipLoop parts n result = Inr r \<and> State r = State result \<and> City r = City result \<and>
     StreetName r = StreetName result \<and> StreetNumber r = StreetNumber result"
proof (induction n)
  case 0
  then show ?case by simp
next
  case (Suc n)
  then have n: "n < length parts" by simp
  have prev: "0 < n \<Longrightarrow> \<not> isState (parts ! (n - 1))"
    using Suc.prems n by (simp add: less_imp_diff_less)
  show ?case
    using Suc n prev by (auto simp: less_imp_diff_less)
qed

lemma isState_nonempty: "isState t \<Longrightarrow> ToUpper t \<noteq> []"
  using isState_Nil by (cases t) (auto simp: ToUpper_def)

lemma numbered_fields:
  "StreetName (numbered parts0) = [] \<and> City (numbered parts0) = [] \<and> State (numbered parts0) = []"
  by (simp add: numbered_def emptyAddress_def)

lemma foundState_fields:
  "State (foundState parts j result) = ToUpper (parts ! j) \<and>
   StreetName (foundState parts j result) = StreetName result \<and>
   City (foundState parts j result) = (if 0 < j then Join (take j parts) '' '' else City result)"
  by (simp add: foundState_def Let_def)

lemma scanned_state:
  assumes "t \<in> set parts0" and "isState t" and "parts0 \<noteq> []"
  shows "t \<in> set (scanned parts0)"
proof (cases "MatchString leadingDigits (parts0 ! 0)")
  case False
  then show ?thesis using assms by (simp add: scanned_def)
next
  case True
  then have "\<not> isState (parts0 ! 0)" by (rule number_not_state)
  then have "t \<noteq> hd parts0" using assms by (auto simp: hd_conv_nth)
  then have "t \<in> set (tl parts0)" using assms by (cases parts0) auto
  then show ?thesis using True by (simp add: scanned_def drop_Suc)
qed

text \<open>
  C10: when the fallback parser returns a record and a token is a state, the state is set and
  the street name is empty; the first state token among the scanned tokens becomes the state
  and the tokens before it the city; a street name is written only when city and state are
  empty. So no record has both a state and a street name.
\<close>

theorem fallback_state_excludes_street:
  assumes "parsePartialAddress address = Inr (Some r)"
  shows "((\<exists>t \<in> set (Fields address). isState t) \<longrightarrow> State r \<noteq> [] \<and> StreetName r = []) \<and>
    (\<forall>j < length (scanned (Fields address)).
       isState (scanned (Fields address) ! j) \<and>
       (\<forall>k < j. \<not> isState (scanned (Fields address) ! k)) \<longrightarrow>
       State r = ToUpper (scanned (Fields address) ! j) \<and>
       (0 < j \<longrightarrow> City r = Join (take j (scanned (Fields address))) '' '')) \<and>
    (StreetName r \<noteq> [] \<longrightarrow> City r = [] \<and> State r = []) \<and>
    \<not> (State r \<noteq> [] \<and> StreetName r \<noteq> [])"
proof -
  have len: "2 \<le> length (Fields address)"
    using assms by (cases "length (Fields address) < 2") (simp_all add: parsePartialAddress_def)
  then have ne: "Fields address \<noteq> []" by auto
  define parts where "parts = scanned (Fields address)"
  define r0 where "r0 = numbered (Fields address)"
  note loops = parsePartialAddress_loops [OF len, folded parts_def r0_def]
  have r0: "StreetName r0 = []" "City r0 = []" "State r0 = []"
    using numbered_fields by (simp_all add: r0_def)
  show ?thesis
  proof (cases "\<exists>j < length parts. isState (parts ! j)")
    case True
    define j where "j = (LEAST j. j < length parts \<and> isState (parts ! j))"
    have "\<exists>j. j < length parts \<and> isState (parts ! j)" using True by blast
    then have j: "j < length parts \<and> isState (parts ! j)"
      unfolding j_def by (rule LeastI_ex)
    have least: "\<not> isState (parts ! k)" if "k < j" for k
      using that not_less_Least [of k "\<lambda>j. j < length parts \<and> isState (parts ! j)"] j
      by (auto simp: j_def)
    have "stateLoop parts 0 r0 = Inr (foundState parts j r0)"
      using stateLoop_found [of 0 j parts r0] j least by simp
    moreover have st: "State (foundState parts j r0) \<noteq> []"
      using j isState_nonempty by (simp add: foundState_fields)
    ultimately have r: "r = foundState parts j r0"
      using assms by (simp add: loops)
    have uniq: "j' = j" if "j' < length parts" "isState (parts ! j')"
      "\<forall>k < j'. \<not> isState (parts ! k)" for j'
      using that j least by (meson linorder_neqE_nat)
    have c1: "State r \<noteq> [] \<and> StreetName r = []"
      using st r0 by (simp add: r foundState_fields)
    have c2: "State r = ToUpper (parts ! j') \<and> (0 < j' \<longrightarrow> City r = Join (take j' parts) '' '')"
      if "j' < length parts" "isState (parts ! j') \<and> (\<forall>k < j'. \<not> isState (parts ! k))" for j'
    proof -
      have "j' = j" using that uniq by blast
      then show ?thesis by (simp add: r foundState_fields)
    qed
    show ?thesis
      unfolding parts_def [symmetric] using c1 c2 by blast
  next
    case False
    then have none: "\<not> isState t" if "t \<in> set parts" for t
      using that by (auto simp: in_set_conv_nth)
    then have none0: "\<not> isState t" if "t \<in> set (Fields address)" for t
      using that scanned_state [OF _ _ ne] by (auto simp: parts_def)
    have l1: "stateLoop parts 0 r0 = Inr r0"
      using False by (intro stateLoop_none) auto
    obtain r2 where r2: "zipLoop parts (length parts) r0 = Inr r2"
      "State r2 = State r0" "City r2 = City r0" "StreetName r2 = StreetName r0"
      using zipLoop_no_state [of parts "length parts" r0] none by auto
    have "r = r0 \<or> r = r2 \<or> r = r2\<lparr>StreetName := Join parts '' ''\<rparr>"
      using assms l1 r2(1) by (auto simp: loops split: if_splits)
    then have c: "State r = [] \<and> City r = []"
      using r2 r0 by auto
    have a: "\<not> (\<exists>t \<in> set (Fields address). isState t)"
      using none0 by blast
    have b: "\<not> (isState (parts ! j') \<and> (\<forall>k < j'. \<not> isState (parts ! k)))"
      if "j' < length parts" for j'
      using that False by blast
    show ?thesis
      unfolding parts_def [symmetric] using a b c by blast
  qed
qed

definition stateExample :: ValidatedAddress where
  "stateExample = emptyAddress\<lparr>City := ''Springfield'', State := ''ILLINOIS'', ZipCode := ''62701''\<rparr>"

definition streetExample :: ValidatedAddress where
  "streetExample = emptyAddress\<lparr>StreetNumber := ''789'', StreetName := ''Main Street''\<rparr>"

lemma fallback_example_state:
  "parsePartialAddress ''Springfield Illinois 62701'' = Inr (Some stateExample)"
  by code_simp

lemma fallback_example_token: "list_ex isState (Fields ''Springfield Illinois 62701'')"
  by code_simp

lemma fallback_example_street: "parsePartialAddress ''789 Main Street'' = Inr (Some streetExample)"
  by code_simp

lemma streetExample_name: "StreetName streetExample \<noteq> []"
  by (simp add: streetExample_def emptyAddress_def)

theorem fallback_state_excludes_street_witness:
  "parsePartialAddress ''Springfield Illinois 62701'' = Inr (Some stateExample) \<and>
   list_ex isState (Fields ''Springfield Illinois 62701'') \<and>
   State stateExample \<noteq> [] \<and> StreetName stateExample = [] \<and>
   parsePartialAddress ''789 Main Street'' = Inr (Some streetExample) \<and>
   StreetName streetExample \<noteq> [] \<and> City streetExample = [] \<and> State streetExample = []"
proof -
  have token: "\<exists>t \<in> set (Fields ''Springfield Illinois 62701''). isState t"
    using fallback_example_token unfolding list_ex_iff .
  have "State stateExample \<noteq> [] \<and> StreetName stateExample = []"
    using fallback_state_excludes_street [OF fallback_example_state] token by blast
  moreover have "City streetExample = [] \<and> State streetExample = []"
    using fallback_state_excludes_street [OF fallback_example_street] streetExample_name by blast
  ultimately show ?thesis
    using fallback_example_state fallback_example_token fallback_example_street streetExample_name
    by blast
qed

end
